theory Spec2Isabelle
  imports Complex_Main
begin

section \<open>Tensor elements\<close>

text \<open>
  The generator of \<^verbatim>\<open>frustum_grid_generator.py\<close> computes on float32 tensors. An element
  is modelled as an exact real number or one of the three special values of IEEE
  arithmetic. Finite arithmetic is exact: rounding, overflow of finite operands and the
  sign of zero are not represented, with the one exception of the absorbed summand in
  \<open>add_eps\<close> below. The special values follow IEEE 754: a non-zero number divided by
  zero is an infinity, \<open>0/0\<close>, \<open>inf - inf\<close> and \<open>0 * inf\<close> are NaN, and NaN propagates
  through every operation.
\<close>

datatype fl = Fin real | Inf bool | NaN

abbreviation PInf :: fl where "PInf \<equiv> Inf True"
abbreviation NInf :: fl where "NInf \<equiv> Inf False"

fun isfinite :: "fl \<Rightarrow> bool" where
  "isfinite (Fin a) = True"
| "isfinite (Inf s) = False"
| "isfinite NaN = False"

fun fneg :: "fl \<Rightarrow> fl" where
  "fneg (Fin a) = Fin (- a)"
| "fneg (Inf s) = Inf (\<not> s)"
| "fneg NaN = NaN"

fun fabs :: "fl \<Rightarrow> fl" where
  "fabs (Fin a) = Fin \<bar>a\<bar>"
| "fabs (Inf s) = PInf"
| "fabs NaN = NaN"

fun fadd :: "fl \<Rightarrow> fl \<Rightarrow> fl" where
  "fadd (Fin a) (Fin b) = Fin (a + b)"
| "fadd (Fin a) (Inf t) = Inf t"
| "fadd (Inf s) (Fin b) = Inf s"
| "fadd (Inf s) (Inf t) = (if s = t then Inf s else NaN)"
| "fadd NaN y = NaN"
| "fadd x NaN = NaN"

definition fsub :: "fl \<Rightarrow> fl \<Rightarrow> fl" where
  "fsub x y = fadd x (fneg y)"

fun fmul :: "fl \<Rightarrow> fl \<Rightarrow> fl" where
  "fmul (Fin a) (Fin b) = Fin (a * b)"
| "fmul (Fin a) (Inf t) = (if a = 0 then NaN else Inf (t = (0 < a)))"
| "fmul (Inf s) (Fin b) = (if b = 0 then NaN else Inf (s = (0 < b)))"
| "fmul (Inf s) (Inf t) = Inf (s = t)"
| "fmul NaN y = NaN"
| "fmul x NaN = NaN"

fun fdiv :: "fl \<Rightarrow> fl \<Rightarrow> fl" where
  "fdiv (Fin a) (Fin b) =
     (if b = 0 then (if a = 0 then NaN else Inf (0 < a)) else Fin (a / b))"
| "fdiv (Fin a) (Inf t) = Fin 0"
| "fdiv (Inf s) (Fin b) = Inf (s = (0 \<le> b))"
| "fdiv (Inf s) (Inf t) = NaN"
| "fdiv NaN y = NaN"
| "fdiv x NaN = NaN"

text \<open>The comparison \<open>x > y\<close>; every comparison with NaN is false.\<close>

fun fgt :: "fl \<Rightarrow> fl \<Rightarrow> bool" where
  "fgt (Fin a) (Fin b) = (b < a)"
| "fgt (Fin a) (Inf t) = (\<not> t)"
| "fgt (Inf s) (Fin b) = s"
| "fgt (Inf s) (Inf t) = (s \<and> \<not> t)"
| "fgt NaN y = False"
| "fgt x NaN = False"

definition fl_of_int :: "int \<Rightarrow> fl" where
  "fl_of_int n = Fin (of_int n)"

text \<open>
  \<^verbatim>\<open>Tensor.int()\<close> converts the 64-bit grid sizes to 32-bit integers: the low 32 bits
  are kept and read in two's complement, so \<open>2^31\<close> becomes \<open>-2^31\<close> and \<open>2^32 + 1\<close>
  becomes \<open>1\<close>.
\<close>

definition int32_cast :: "int \<Rightarrow> int" where
  "int32_cast n = (n + 2147483648) mod 4294967296 - 2147483648"

section \<open>Vectors, matrices and dense grids\<close>

text \<open>
  The documented inner shapes are fixed by the types: a point has three components, a
  homogeneous point four, a LiDAR-to-camera matrix is 4x4 and a camera projection 3x4,
  each matrix being the tuple of its rows. The batch dimension and the three grid
  dimensions are lists, so the elements of a tensor of shape \<open>[B, X, Y, Z, 3]\<close> are a
  four-fold nested list of points. A nested list with an empty dimension keeps no
  trace of the sizes of the dimensions inside it, and a tensor does: where the code reads
  the shape of a tensor, the tensor is the record of its four leading sizes and its
  elements.
\<close>

type_synonym vec3 = "fl \<times> fl \<times> fl"
type_synonym vec4 = "fl \<times> fl \<times> fl \<times> fl"
type_synonym mat44 = "vec4 \<times> vec4 \<times> vec4 \<times> vec4"
type_synonym mat34 = "vec4 \<times> vec4 \<times> vec4"
type_synonym 'a grid = "'a list list list list"

record 'a tensor =
  dims :: "nat \<times> nat \<times> nat \<times> nat"
  elems :: "'a grid"

definition map4d :: "('a \<Rightarrow> 'b) \<Rightarrow> 'a grid \<Rightarrow> 'b grid" where
  "map4d f = map (map (map (map f)))"

definition tensor_map :: "('a \<Rightarrow> 'b) \<Rightarrow> 'a tensor \<Rightarrow> 'b tensor" where
  "tensor_map f t = \<lparr> dims = dims t, elems = map4d f (elems t) \<rparr>"

fun dot4 :: "vec4 \<Rightarrow> vec4 \<Rightarrow> fl" where
  "dot4 (a, b, c, d) (x, y, z, w) =
     fadd (fadd (fadd (fmul a x) (fmul b y)) (fmul c z)) (fmul d w)"

fun mat_vec44 :: "mat44 \<Rightarrow> vec4 \<Rightarrow> vec4" where
  "mat_vec44 (r0, r1, r2, r3) v = (dot4 r0 v, dot4 r1 v, dot4 r2 v, dot4 r3 v)"

fun mat_vec34 :: "mat34 \<Rightarrow> vec4 \<Rightarrow> vec3" where
  "mat_vec34 (r0, r1, r2) v = (dot4 r0 v, dot4 r1 v, dot4 r2 v)"

fun columns44 :: "mat44 \<Rightarrow> mat44" where
  "columns44 ((a0, a1, a2, a3), (b0, b1, b2, b3), (c0, c1, c2, c3), (d0, d1, d2, d3)) =
     ((a0, b0, c0, d0), (a1, b1, c1, d1), (a2, b2, c2, d2), (a3, b3, c3, d3))"

text \<open>The matrix product \<^verbatim>\<open>A @ B\<close> of two 4x4 matrices.\<close>

definition mat_mul44 :: "mat44 \<Rightarrow> mat44 \<Rightarrow> mat44" where
  "mat_mul44 A B =
     (case (A, columns44 B) of
        ((r0, r1, r2, r3), (k0, k1, k2, k3)) \<Rightarrow>
          ((dot4 r0 k0, dot4 r0 k1, dot4 r0 k2, dot4 r0 k3),
           (dot4 r1 k0, dot4 r1 k1, dot4 r1 k2, dot4 r1 k3),
           (dot4 r2 k0, dot4 r2 k1, dot4 r2 k2, dot4 r2 k3),
           (dot4 r3 k0, dot4 r3 k1, dot4 r3 k2, dot4 r3 k3)))"

section \<open>Errors\<close>

text \<open>
  Every exception the modelled code can raise is a value: \<open>ShapeError\<close> for a reshape,
  broadcast or unpacking whose sizes do not fit, \<open>StepsError\<close> for a negative number of
  steps given to \<^verbatim>\<open>torch.linspace\<close>, \<open>BatchError\<close> for the batch check of
  \<^verbatim>\<open>kornia.transform_points\<close>, \<open>ZeroDivisionError\<close> for its integer division by an
  empty batch, and \<open>EmptyReduceError\<close> for \<^verbatim>\<open>torch.max\<close> along an empty dimension.
\<close>

datatype error = ShapeError | StepsError | BatchError | ZeroDivisionError | EmptyReduceError

section \<open>Library primitives used by the generator\<close>

text \<open>
  \<^verbatim>\<open>kornia.utils.create_meshgrid3d(depth, height, width, normalized_coordinates=False)\<close>
  builds \<^verbatim>\<open>linspace(0, n - 1, n)\<close> for the three sizes, which raises for a negative
  size, stacks the mesh of (depth, width, height) coordinates and returns a tensor of
  shape \<open>[1, depth, height, width, 3]\<close> whose entry at \<open>[0, d, h, w]\<close> is \<open>(d, w, h)\<close>.
\<close>

definition create_meshgrid3d :: "int \<Rightarrow> int \<Rightarrow> int \<Rightarrow> error + vec3 tensor" where
  "create_meshgrid3d depth height width =
     (if width < 0 \<or> height < 0 \<or> depth < 0 then Inl StepsError
      else Inr \<lparr> dims = (1, nat depth, nat height, nat width),
                 elems = [map (\<lambda>d. map (\<lambda>h. map (\<lambda>w. (Fin (real d), Fin (real w), Fin (real h)))
                                              [0..<nat width])
                                     [0..<nat height])
                           [0..<nat depth]] \<rparr>)"

text \<open>\<^verbatim>\<open>t.permute(0, 1, 3, 2, 4)\<close> exchanges the third and fourth dimension.\<close>

definition permute_01324 :: "'a tensor \<Rightarrow> 'a tensor" where
  "permute_01324 t =
     (case dims t of
        (n0, n1, n2, n3) \<Rightarrow>
          \<lparr> dims = (n0, n1, n3, n2),
            elems = map (map (\<lambda>slab. map (\<lambda>j. map (\<lambda>i. slab ! i ! j) [0..<n2]) [0..<n3]))
                        (elems t) \<rparr>)"

text \<open>\<^verbatim>\<open>t.repeat_interleave(repeats=B, dim=0)\<close>: every leading entry, \<open>B\<close> times in a row.\<close>

definition repeat_interleave :: "nat \<Rightarrow> 'a tensor \<Rightarrow> 'a tensor" where
  "repeat_interleave B t =
     (case dims t of
        (n0, n1, n2, n3) \<Rightarrow>
          \<lparr> dims = (B * n0, n1, n2, n3), elems = concat (map (replicate B) (elems t)) \<rparr>)"

fun convert_points_to_homogeneous :: "vec3 \<Rightarrow> vec4" where
  "convert_points_to_homogeneous (x, y, z) = (x, y, z, Fin 1)"

text \<open>
  \<^verbatim>\<open>kornia.convert_points_from_homogeneous\<close> scales by \<^verbatim>\<open>1.0 / (z_vec + eps)\<close> where
  the absolute value of the last component \<open>z_vec\<close> exceeds \<open>eps = 1e-8\<close>, and by one
  elsewhere. The sum \<open>z_vec + eps\<close> is a float32 addition, and \<open>eps\<close> is less than half
  the distance between neighbouring float32 numbers from \<open>1/4\<close> upwards and below
  \<open>-1/4\<close>: there the sum rounds to \<open>z_vec\<close> itself, as in \<open>1 + 1e-8 = 1\<close>. Closer to
  zero the summand is not absorbed, and the sum is taken exactly.
\<close>

definition eps :: fl where
  "eps = Fin (1 / 100000000)"

fun add_eps :: "fl \<Rightarrow> fl" where
  "add_eps (Fin a) = (if 1/4 \<le> a \<or> a < - 1/4 then Fin a else Fin (a + 1 / 100000000))"
| "add_eps (Inf s) = Inf s"
| "add_eps NaN = NaN"

fun convert_points_from_homogeneous :: "vec4 \<Rightarrow> vec3" where
  "convert_points_from_homogeneous (x, y, z, w) =
     (let scale = (if fgt (fabs w) eps then fdiv (Fin 1) (add_eps w) else Fin 1)
      in (fmul scale x, fmul scale y, fmul scale z))"

definition transform_point :: "mat44 \<Rightarrow> vec3 \<Rightarrow> vec3" where
  "transform_point T p =
     convert_points_from_homogeneous (mat_vec44 T (convert_points_to_homogeneous p))"

text \<open>
  \<^verbatim>\<open>kornia.transform_points(trans_01, points_1)\<close> with \<open>trans_01\<close> of shape
  \<open>[B, 1, 1, 4, 4]\<close> and \<open>points_1\<close> of shape \<open>[N, X, Y, Z, 3]\<close>. The batch sizes must
  be equal, or \<open>B\<close> must be one. The points are reshaped to \<^verbatim>\<open>(-1, Z, 3)\<close>, which is
  ambiguous and raises when \<open>Z = 0\<close>; the matrices are reshaped to \<^verbatim>\<open>(-1, 4, 4)\<close> and
  repeated \<^verbatim>\<open>points_1.shape[0] // trans_01.shape[0]\<close> times each, a division that raises
  for \<open>B = 0\<close>. Then the matrix of a batch entry is applied to each of its points, a
  single matrix to every point, and the result is reshaped to the shape of the input.
\<close>

definition transform_points :: "mat44 list \<Rightarrow> vec3 tensor \<Rightarrow> error + vec3 tensor" where
  "transform_points trans_01 points_1 =
     (case dims points_1 of
        (n0, n1, n2, n3) \<Rightarrow>
          if length trans_01 \<noteq> n0 \<and> length trans_01 \<noteq> 1 then Inl BatchError
          else if n3 = 0 then Inl ShapeError
          else if length trans_01 = 0 then Inl ZeroDivisionError
          else if length trans_01 = n0
          then Inr \<lparr> dims = dims points_1,
                     elems = map (\<lambda>(T, ps). map (map (map (transform_point T))) ps)
                                 (zip trans_01 (elems points_1)) \<rparr>
          else Inr \<lparr> dims = dims points_1,
                     elems = map (map (map (map (transform_point (hd trans_01)))))
                                 (elems points_1) \<rparr>)"

section \<open>The generator and its construction\<close>

record disc_cfg =
  mode :: string
  num_bins :: int
  depth_min :: fl
  depth_max :: fl

record generator =
  grid_size :: "int list"
  pc_range :: "fl list"
  out_of_bounds_val :: fl
  disc_cfg :: disc_cfg
  pc_min :: vec3
  pc_max :: vec3
  voxel_size :: vec3
  depth :: int
  width :: int
  height :: int
  voxel_grid :: "vec3 tensor"
  grid_to_lidar :: mat44

text \<open>\<^verbatim>\<open>FrustumGridGenerator.grid_to_lidar_unproject\<close>.\<close>

fun grid_to_lidar_unproject :: "vec3 \<Rightarrow> vec3 \<Rightarrow> mat44" where
  "grid_to_lidar_unproject (x_min, y_min, z_min) (x_size, y_size, z_size) =
     ((x_size, Fin 0, Fin 0, x_min),
      (Fin 0, y_size, Fin 0, y_min),
      (Fin 0, Fin 0, z_size, z_min),
      (Fin 0, Fin 0, Fin 0, Fin 1))"

fun add_half :: "vec3 \<Rightarrow> vec3" where
  "add_half (x, y, z) = (fadd x (Fin (1/2)), fadd y (Fin (1/2)), fadd z (Fin (1/2)))"

text \<open>
  \<^verbatim>\<open>FrustumGridGenerator.__init__\<close>. \<^verbatim>\<open>reshape(2, 3)\<close> needs six range values, and the
  elementwise division and the unpacking into depth, width and height need three grid
  sizes. The voxel size is computed from the grid sizes as given (line 30), the mesh
  from the grid sizes cast to 32 bits (line 33). Nothing else is checked: the only other
  failure is that of the mesh primitive.
\<close>

definition init :: "int list \<Rightarrow> fl list \<Rightarrow> disc_cfg \<Rightarrow> error + generator" where
  "init gs pr dc =
     (if length pr \<noteq> 6 then Inl ShapeError
      else if length gs \<noteq> 3 then Inl ShapeError
      else
        let pmin = (pr ! 0, pr ! 1, pr ! 2);
            pmax = (pr ! 3, pr ! 4, pr ! 5);
            vsize = (fdiv (fsub (pr ! 3) (pr ! 0)) (fl_of_int (gs ! 0)),
                     fdiv (fsub (pr ! 4) (pr ! 1)) (fl_of_int (gs ! 1)),
                     fdiv (fsub (pr ! 5) (pr ! 2)) (fl_of_int (gs ! 2)));
            d = int32_cast (gs ! 0); w = int32_cast (gs ! 1); h = int32_cast (gs ! 2)
        in case create_meshgrid3d d h w of
             Inl e \<Rightarrow> Inl e
           | Inr mesh \<Rightarrow>
               Inr \<lparr> grid_size = gs, pc_range = pr, out_of_bounds_val = Fin (- 2),
                     disc_cfg = dc, pc_min = pmin, pc_max = pmax, voxel_size = vsize,
                     depth = d, width = w, height = h,
                     voxel_grid = tensor_map add_half (permute_01324 mesh),
                     grid_to_lidar = grid_to_lidar_unproject pmin vsize \<rparr>)"

section \<open>Helpers of the repository that the generator calls\<close>

text \<open>
  Modelled from the spec: \<^verbatim>\<open>transform_utils.project_to_image\<close> is not part of the
  available source. Section 4.3 of the specification: camera-frame coordinates are
  projected through the 3x4 matrix to homogeneous image coordinates \<open>(u*w, v*w, w)\<close>,
  which are divided by \<open>w\<close> to give the pixel \<open>(u, v)\<close>; \<open>w\<close> is kept as the depth of
  the voxel, and the division by \<open>w = 0\<close> is not masked. The projection of batch entry
  \<open>b\<close> is applied to every point of batch entry \<open>b\<close>.
\<close>

definition project_point :: "mat34 \<Rightarrow> vec3 \<Rightarrow> (fl \<times> fl) \<times> fl" where
  "project_point P p =
     (case mat_vec34 P (convert_points_to_homogeneous p) of
        (uw, vw, w) \<Rightarrow> ((fdiv uw w, fdiv vw w), w))"

definition project_to_image :: "mat34 list \<Rightarrow> vec3 grid \<Rightarrow> (fl \<times> fl) grid \<times> fl grid" where
  "project_to_image project points =
     (map (\<lambda>(P, ps). map (map (map (\<lambda>p. fst (project_point P p)))) ps) (zip project points),
      map (\<lambda>(P, ps). map (map (map (\<lambda>p. snd (project_point P p)))) ps) (zip project points))"

text \<open>
  Modelled from the spec: \<^verbatim>\<open>grid_utils.normalize_coords\<close> is not part of the available
  source. Section 4.5 of the specification: with the reference shape
  \<open>(num_bins, max_H, max_W)\<close> every coordinate becomes \<open>2 * raw / (extent - 1) - 1\<close>, the
  depth bin against \<open>num_bins\<close>, \<open>u\<close> against the width and \<open>v\<close> against the height.
  The coordinates arrive in the order \<open>(u, v, depth_bin)\<close> in which
  \<^verbatim>\<open>transform_grid\<close> concatenates them.
\<close>

definition normalize_axis :: "fl \<Rightarrow> int \<Rightarrow> fl" where
  "normalize_axis raw extent =
     fsub (fdiv (fmul (Fin 2) raw) (fsub (fl_of_int extent) (Fin 1))) (Fin 1)"

fun normalize_point :: "int \<times> int \<times> int \<Rightarrow> vec3 \<Rightarrow> vec3" where
  "normalize_point (nb, h, w) (u, v, d) =
     (normalize_axis u w, normalize_axis v h, normalize_axis d nb)"

definition normalize_coords :: "vec3 grid \<Rightarrow> int \<times> int \<times> int \<Rightarrow> vec3 grid" where
  "normalize_coords coords shape = map4d (normalize_point shape) coords"

text \<open>
  \<^verbatim>\<open>depth_utils.bin_depths\<close> is not part of the available source either, and the
  specification (section 4.4) gives only its contract. It is a parameter \<open>bin_depths\<close>
  of the per-call functions below: a function from the discretisation configuration and
  a depth to a bin index, applied to every element of the depth map.
\<close>

text \<open>
  Modelled from the spec: \<open>uniform_bin_depths\<close> is one discretiser that meets the
  contract of section 4.4 (an index in \<open>[0, num_bins)\<close>, non-decreasing in the depth,
  depths out of range clamped to a boundary bin). It splits the depth range into
  \<open>num_bins\<close> bins of equal size and is used where a concrete discretiser is needed.
\<close>

fun uniform_bin_depths :: "disc_cfg \<Rightarrow> fl \<Rightarrow> fl" where
  "uniform_bin_depths dc (Fin x) =
     (case (depth_min dc, depth_max dc) of
        (Fin lo, Fin hi) \<Rightarrow>
          (if lo < hi
           then Fin (of_int (max 0 (min (num_bins dc - 1)
                                        \<lfloor>(x - lo) * of_int (num_bins dc) / (hi - lo)\<rfloor>)))
           else NaN)
      | _ \<Rightarrow> NaN)"
| "uniform_bin_depths dc (Inf s) = (if s then fl_of_int (num_bins dc - 1) else Fin 0)"
| "uniform_bin_depths dc NaN = NaN"

section \<open>The per-call pipeline\<close>

text \<open>Elementwise pairing of two grids of the same shape.\<close>

definition zip4d :: "'a grid \<Rightarrow> 'b grid \<Rightarrow> ('a \<times> 'b) grid" where
  "zip4d a b =
     map (\<lambda>(a1, b1). map (\<lambda>(a2, b2). map (\<lambda>(a3, b3). zip a3 b3) (zip a2 b2)) (zip a1 b1))
         (zip a b)"

text \<open>
  Lines 104 to 111 of \<^verbatim>\<open>transform_grid\<close>: the depths become bins, and the image grid
  and the bins are concatenated along the last dimension.
\<close>

definition stack_frustum ::
  "(disc_cfg \<Rightarrow> fl \<Rightarrow> fl) \<Rightarrow> disc_cfg \<Rightarrow> (fl \<times> fl) grid \<times> fl grid \<Rightarrow> vec3 grid" where
  "stack_frustum bin_depths dc projected =
     (let (image_grid, image_depths) = projected;
          image_depths = map4d (bin_depths dc) image_depths
      in map4d (\<lambda>((u, v), d). (u, v, d)) (zip4d image_grid image_depths))"

text \<open>
  \<^verbatim>\<open>FrustumGridGenerator.transform_grid\<close>. \<^verbatim>\<open>C_V @ V_G\<close> multiplies every matrix of the
  batch with the grid-to-LiDAR matrix from the right. The reshape of \<open>trans\<close> to
  \<open>[B, 1, 1, 4, 4]\<close> always fits; the reshape of \<open>I_C\<close> to \<open>[B, 1, 1, 3, 4]\<close> fits only
  when \<open>cam_to_img\<close> holds \<open>B\<close> matrices.
\<close>

definition transform_grid ::
  "(disc_cfg \<Rightarrow> fl \<Rightarrow> fl) \<Rightarrow> generator \<Rightarrow> vec3 tensor \<Rightarrow> mat44 \<Rightarrow> mat44 list \<Rightarrow> mat34 list
     \<Rightarrow> error + vec3 grid" where
  "transform_grid bin_depths self vgrid V_G C_V I_C =
     (let B = length C_V;
          trans = map (\<lambda>C. mat_mul44 C V_G) C_V;
          vgrid = repeat_interleave B vgrid
      in case transform_points trans vgrid of
           Inl e \<Rightarrow> Inl e
         | Inr camera_grid \<Rightarrow>
             if length I_C \<noteq> B then Inl ShapeError
             else Inr (stack_frustum bin_depths (disc_cfg self)
                         (project_to_image I_C (elems camera_grid))))"

text \<open>\<^verbatim>\<open>torch.max(image_shape, dim=0)\<close> on a tensor of shape \<open>[B, 2]\<close> with rows \<open>[H, W]\<close>.\<close>

fun max_dim0 :: "(int \<times> int) list \<Rightarrow> error + int \<times> int" where
  "max_dim0 [] = Inl EmptyReduceError"
| "max_dim0 ((h, w) # rest) = Inr (foldl max h (map fst rest), foldl max w (map snd rest))"

text \<open>
  Lines 125 to 134 of \<^verbatim>\<open>FrustumGridGenerator.forward\<close>: the frustum grid normalised
  against \<open>frustum_shape = (num_bins, max_H, max_W)\<close>.
\<close>

definition normalized_grid ::
  "(disc_cfg \<Rightarrow> fl \<Rightarrow> fl) \<Rightarrow> generator \<Rightarrow> mat44 list \<Rightarrow> mat34 list \<Rightarrow> (int \<times> int) list
     \<Rightarrow> error + vec3 grid" where
  "normalized_grid bin_depths self lidar_to_cam cam_to_img image_shape =
     (case transform_grid bin_depths self (voxel_grid self) (grid_to_lidar self)
             lidar_to_cam cam_to_img of
        Inl e \<Rightarrow> Inl e
      | Inr frustum_grid \<Rightarrow>
          (case max_dim0 image_shape of
             Inl e \<Rightarrow> Inl e
           | Inr (h, w) \<Rightarrow>
               let frustum_shape = (num_bins (disc_cfg self), h, w)
               in Inr (normalize_coords frustum_grid frustum_shape)))"

text \<open>
  Lines 137 and 138: \<^verbatim>\<open>frustum_grid[~torch.isfinite(frustum_grid)] = out_of_bounds_val\<close>,
  an assignment through a mask over the scalar elements.
\<close>

definition mask_scalar :: "fl \<Rightarrow> fl \<Rightarrow> fl" where
  "mask_scalar oob x = (if \<not> isfinite x then oob else x)"

fun mask_point :: "fl \<Rightarrow> vec3 \<Rightarrow> vec3" where
  "mask_point oob (u, v, d) = (mask_scalar oob u, mask_scalar oob v, mask_scalar oob d)"

text \<open>\<^verbatim>\<open>FrustumGridGenerator.forward\<close>, as a function of the generator and the arguments.\<close>

definition forward ::
  "(disc_cfg \<Rightarrow> fl \<Rightarrow> fl) \<Rightarrow> generator \<Rightarrow> mat44 list \<Rightarrow> mat34 list \<Rightarrow> (int \<times> int) list
     \<Rightarrow> error + vec3 grid" where
  "forward bin_depths self lidar_to_cam cam_to_img image_shape =
     (case normalized_grid bin_depths self lidar_to_cam cam_to_img image_shape of
        Inl e \<Rightarrow> Inl e
      | Inr frustum_grid \<Rightarrow> Inr (map4d (mask_point (out_of_bounds_val self)) frustum_grid))"

section \<open>The call as a step on a store of tensors\<close>

text \<open>
  \<^verbatim>\<open>forward\<close> works on tensor objects, and its last statement writes into one of them
  in place. To see which tensor that is, the same statements are modelled once more on
  a store: an address holds a tensor, a new tensor is allocated at the next free address,
  and an in-place write changes the tensor at an address. \<^verbatim>\<open>Tensor.to(device)\<close> returns
  the tensor itself when it is on the device already, so the voxel grid that
  \<^verbatim>\<open>transform_grid\<close> receives is the generator's own tensor; \<^verbatim>\<open>repeat_interleave\<close>,
  \<^verbatim>\<open>kornia.transform_points\<close>, \<^verbatim>\<open>torch.cat\<close> and the arithmetic of the normalisation
  each return a new tensor. The store holds the tensors of points; the matrices, the
  image shapes and the plain attributes of the generator are never written by a
  statement of \<^verbatim>\<open>forward\<close> or \<^verbatim>\<open>transform_grid\<close> and are passed as values.
\<close>

type_synonym addr = nat

record store =
  cells :: "addr \<Rightarrow> vec3 tensor"
  next_free :: addr

record generator_ref =
  attrs :: generator
  voxel_grid_at :: addr

definition alloc :: "vec3 tensor \<Rightarrow> store \<Rightarrow> addr \<times> store" where
  "alloc t h = (next_free h, \<lparr> cells = (cells h)(next_free h := t),
                              next_free = Suc (next_free h) \<rparr>)"

text \<open>The assignment \<^verbatim>\<open>t[mask] = val\<close> on the tensor at an address.\<close>

definition masked_write :: "addr \<Rightarrow> fl \<Rightarrow> store \<Rightarrow> store" where
  "masked_write a val h =
     \<lparr> cells = (cells h)(a := tensor_map (mask_point val) (cells h a)),
       next_free = next_free h \<rparr>"

definition init_on_store ::
  "int list \<Rightarrow> fl list \<Rightarrow> disc_cfg \<Rightarrow> store \<Rightarrow> (error + generator_ref) \<times> store" where
  "init_on_store gs pr dc h =
     (case init gs pr dc of
        Inl e \<Rightarrow> (Inl e, h)
      | Inr g \<Rightarrow>
          let (a, h) = alloc (voxel_grid g) h
          in (Inr \<lparr> attrs = g, voxel_grid_at = a \<rparr>, h))"

text \<open>
  Modelled from the spec: \<^verbatim>\<open>project_to_image\<close>, \<^verbatim>\<open>bin_depths\<close> and \<^verbatim>\<open>normalize_coords\<close>, which
  are not part of the available source, are taken to return new tensors and to keep no
  state between calls (section 5 of the specification: the pipeline is a
  stateless-per-call, pure batch computation). The tensors they receive are allocated by
  the call in every case: the camera grid by \<^verbatim>\<open>kornia.transform_points\<close>, the frustum
  grid by \<^verbatim>\<open>torch.cat\<close>.
\<close>

definition transform_grid_on_store ::
  "(disc_cfg \<Rightarrow> fl \<Rightarrow> fl) \<Rightarrow> generator \<Rightarrow> addr \<Rightarrow> mat44 \<Rightarrow> mat44 list \<Rightarrow> mat34 list \<Rightarrow> store
     \<Rightarrow> (error + addr) \<times> store" where
  "transform_grid_on_store bin_depths self vgrid_at V_G C_V I_C h =
     (let B = length C_V;
          trans = map (\<lambda>C. mat_mul44 C V_G) C_V;
          (vgrid_at, h) = alloc (repeat_interleave B (cells h vgrid_at)) h
      in case transform_points trans (cells h vgrid_at) of
           Inl e \<Rightarrow> (Inl e, h)
         | Inr camera_grid \<Rightarrow>
             let (camera_at, h) = alloc camera_grid h
             in if length I_C \<noteq> B then (Inl ShapeError, h)
                else
                  let (frustum_at, h) =
                        alloc \<lparr> dims = dims (cells h camera_at),
                                elems = stack_frustum bin_depths (disc_cfg self)
                                          (project_to_image I_C (elems (cells h camera_at))) \<rparr> h
                  in (Inr frustum_at, h))"

definition forward_on_store ::
  "(disc_cfg \<Rightarrow> fl \<Rightarrow> fl) \<Rightarrow> generator_ref \<Rightarrow> mat44 list \<Rightarrow> mat34 list \<Rightarrow> (int \<times> int) list
     \<Rightarrow> store \<Rightarrow> (error + addr) \<times> store" where
  "forward_on_store bin_depths self lidar_to_cam cam_to_img image_shape h =
     (let vgrid_at = voxel_grid_at self
      in case transform_grid_on_store bin_depths (attrs self) vgrid_at
                (grid_to_lidar (attrs self)) lidar_to_cam cam_to_img h of
           (Inl e, h) \<Rightarrow> (Inl e, h)
         | (Inr frustum_at, h) \<Rightarrow>
             (case max_dim0 image_shape of
                Inl e \<Rightarrow> (Inl e, h)
              | Inr (hh, w) \<Rightarrow>
                  let frustum_shape = (num_bins (disc_cfg (attrs self)), hh, w);
                      (frustum_at, h) =
                        alloc \<lparr> dims = dims (cells h frustum_at),
                                elems = normalize_coords (elems (cells h frustum_at))
                                          frustum_shape \<rparr> h;
                      h = masked_write frustum_at (out_of_bounds_val (attrs self)) h
                  in (Inr frustum_at, h)))"

text \<open>What a call returns: the error, or the elements of the tensor at the returned address.\<close>

definition returned :: "(error + addr) \<times> store \<Rightarrow> error + vec3 grid" where
  "returned rh = (case fst rh of Inl e \<Rightarrow> Inl e | Inr a \<Rightarrow> Inr (elems (cells (snd rh) a)))"

definition empty_store :: store where
  "empty_store = \<lparr> cells = (\<lambda>a. \<lparr> dims = (0, 0, 0, 0), elems = [] \<rparr>), next_free = 0 \<rparr>"

section \<open>Derived notions used in the statements\<close>

text \<open>
  The output triple of \<^verbatim>\<open>transform_grid\<close> for one voxel centre \<open>p\<close>, one camera matrix
  \<open>C\<close> and one projection \<open>P\<close>: the composition of the steps that the pipeline applies
  to a single point.
\<close>

definition frustum_point ::
  "(disc_cfg \<Rightarrow> fl \<Rightarrow> fl) \<Rightarrow> disc_cfg \<Rightarrow> mat44 \<Rightarrow> mat44 \<Rightarrow> mat34 \<Rightarrow> vec3 \<Rightarrow> vec3" where
  "frustum_point bin_depths dc V_G C P p =
     (case project_point P (transform_point (mat_mul44 C V_G) p) of
        ((u, v), d) \<Rightarrow> (u, v, bin_depths dc d))"

text \<open>The centre of the voxel with index \<open>(x, y, z)\<close> in index space.\<close>

definition voxel_center :: "nat \<Rightarrow> nat \<Rightarrow> nat \<Rightarrow> vec3" where
  "voxel_center x y z = (Fin (real x + 1/2), Fin (real y + 1/2), Fin (real z + 1/2))"

text \<open>The grid of all voxel centres for given sizes.\<close>

definition center_grid :: "nat \<Rightarrow> nat \<Rightarrow> nat \<Rightarrow> vec3 list list list" where
  "center_grid X Y Z =
     map (\<lambda>x. map (\<lambda>y. map (\<lambda>z. voxel_center x y z) [0..<Z]) [0..<Y]) [0..<X]"

text \<open>Matrices and homogeneous points all of whose entries are finite.\<close>

fun fin4 :: "real \<times> real \<times> real \<times> real \<Rightarrow> vec4" where
  "fin4 (a, b, c, d) = (Fin a, Fin b, Fin c, Fin d)"

fun fin44 :: "(real \<times> real \<times> real \<times> real) \<times> (real \<times> real \<times> real \<times> real)
    \<times> (real \<times> real \<times> real \<times> real) \<times> (real \<times> real \<times> real \<times> real) \<Rightarrow> mat44" where
  "fin44 (r0, r1, r2, r3) = (fin4 r0, fin4 r1, fin4 r2, fin4 r3)"

text \<open>
  The end-to-end scenario of section 8 of the specification. The scenario names no
  depth bounds; the range \<open>[0, 2]\<close> gives the two bins the size one that the scenario
  presupposes.
\<close>

definition scenario_range :: "fl list" where
  "scenario_range = [Fin 0, Fin 0, Fin 0, Fin 2, Fin 2, Fin 2]"

definition scenario_cfg :: disc_cfg where
  "scenario_cfg = \<lparr> mode = ''UD'', num_bins = 2, depth_min = Fin 0, depth_max = Fin 2 \<rparr>"

definition identity44 :: mat44 where
  "identity44 = ((Fin 1, Fin 0, Fin 0, Fin 0), (Fin 0, Fin 1, Fin 0, Fin 0),
                 (Fin 0, Fin 0, Fin 1, Fin 0), (Fin 0, Fin 0, Fin 0, Fin 1))"

definition scenario_cam_to_img :: mat34 where
  "scenario_cam_to_img = ((Fin 1, Fin 0, Fin 0, Fin 0), (Fin 0, Fin 1, Fin 0, Fin 0),
                          (Fin 0, Fin 0, Fin 1, Fin 0))"

definition scenario_generator :: generator where
  "scenario_generator = projr (init [2, 2, 2] scenario_range scenario_cfg)"

text \<open>
  Inputs for concrete calls on the scenario generator: a projection whose depth row
  vanishes at the centre of voxel \<open>(0, 0, 0)\<close>, a projection that puts that centre on
  the pixel \<open>(0, 0)\<close>, and a LiDAR-to-camera matrix that moves the first layer of voxels
  behind the camera.
\<close>

definition zero_depth_cam_to_img :: mat34 where
  "zero_depth_cam_to_img = ((Fin 1, Fin 0, Fin 0, Fin 0), (Fin 0, Fin 1, Fin 0, Fin 0),
                            (Fin 0, Fin 0, Fin 1, Fin (- 1/2)))"

definition corner_cam_to_img :: mat34 where
  "corner_cam_to_img = ((Fin 1, Fin 0, Fin (- 1), Fin 0), (Fin 0, Fin 1, Fin (- 1), Fin 0),
                        (Fin 0, Fin 0, Fin 1, Fin 0))"

definition behind_lidar_to_cam :: mat44 where
  "behind_lidar_to_cam = ((Fin 1, Fin 0, Fin 0, Fin 0), (Fin 0, Fin 1, Fin 0, Fin 0),
                          (Fin 0, Fin 0, Fin 1, Fin (- 1)), (Fin 0, Fin 0, Fin 0, Fin 1))"

definition mixed_lidar_to_cam :: "mat44 list" where
  "mixed_lidar_to_cam = [identity44, behind_lidar_to_cam]"

definition mixed_cam_to_img :: "mat34 list" where
  "mixed_cam_to_img = [zero_depth_cam_to_img, scenario_cam_to_img]"

definition mixed_normalized :: "vec3 grid" where
  "mixed_normalized =
     projr (normalized_grid uniform_bin_depths scenario_generator mixed_lidar_to_cam
              mixed_cam_to_img [(2, 2)])"

definition mixed_output :: "vec3 grid" where
  "mixed_output =
     projr (forward uniform_bin_depths scenario_generator mixed_lidar_to_cam
              mixed_cam_to_img [(2, 2)])"

definition two_camera_raw :: "vec3 grid" where
  "two_camera_raw =
     projr (transform_grid uniform_bin_depths scenario_generator (voxel_grid scenario_generator)
        (grid_to_lidar scenario_generator) [identity44, behind_lidar_to_cam]
        [scenario_cam_to_img, scenario_cam_to_img])"

text \<open>
  A run on the store: the scenario generator is built in the empty store and
  \<^verbatim>\<open>forward\<close> is called on it twice; then a second generator is built from the same
  configuration and \<^verbatim>\<open>forward\<close> is called on that one.
\<close>

definition scenario_built :: "(error + generator_ref) \<times> store" where
  "scenario_built = init_on_store [2, 2, 2] scenario_range scenario_cfg empty_store"

definition first_call :: "(error + addr) \<times> store" where
  "first_call = forward_on_store uniform_bin_depths (projr (fst scenario_built))
                  mixed_lidar_to_cam mixed_cam_to_img [(2, 2)] (snd scenario_built)"

definition second_call :: "(error + addr) \<times> store" where
  "second_call = forward_on_store uniform_bin_depths (projr (fst scenario_built))
                   mixed_lidar_to_cam mixed_cam_to_img [(2, 2)] (snd first_call)"

definition scenario_rebuilt :: "(error + generator_ref) \<times> store" where
  "scenario_rebuilt = init_on_store [2, 2, 2] scenario_range scenario_cfg (snd second_call)"

definition third_call :: "(error + addr) \<times> store" where
  "third_call = forward_on_store uniform_bin_depths (projr (fst scenario_rebuilt))
                  mixed_lidar_to_cam mixed_cam_to_img [(2, 2)] (snd scenario_rebuilt)"

text \<open>
  A generator whose grid-to-LiDAR matrix is not the identity: voxels of size two, the
  range starting at \<open>(0, -2, -4)\<close>; and a LiDAR-to-camera matrix that exchanges the
  first two axes and shifts the third.
\<close>

definition wide_range :: "fl list" where
  "wide_range = [Fin 0, Fin (- 2), Fin (- 4), Fin 4, Fin 2, Fin 0]"

definition wide_generator :: generator where
  "wide_generator = projr (init [2, 2, 2] wide_range scenario_cfg)"

definition swap_lidar_to_cam :: mat44 where
  "swap_lidar_to_cam = fin44 ((0, 1, 0, 0), (1, 0, 0, 0), (0, 0, 1, 10), (0, 0, 0, 1))"

text \<open>
  One row of an affine map written out in real arithmetic, and the centre of a voxel in
  the LiDAR frame for a range starting at \<open>lo\<close> with voxels of size \<open>v\<close>.
\<close>

fun affine_row :: "real \<times> real \<times> real \<times> real \<Rightarrow> real \<times> real \<times> real \<Rightarrow> fl" where
  "affine_row (a, b, c, d) (x, y, z) = Fin (a * x + b * y + c * z + d)"

definition lidar_center :: "real \<Rightarrow> real \<Rightarrow> nat \<Rightarrow> real" where
  "lidar_center lo v i = (real i + 1/2) * v + lo"

section \<open>Lists and grids\<close>

lemma zip_replicate_length: "zip xs (replicate (length xs) v) = map (\<lambda>x. (x, v)) xs"
  by (induction xs) auto

lemma zip_map_same: "zip (map f xs) (map g xs) = map (\<lambda>x. (f x, g x)) xs"
  by (induction xs) auto

lemma zip4d_map_same:
  "zip4d (map (\<lambda>z. map (map (map (f z))) (t z)) zs) (map (\<lambda>z. map (map (map (h z))) (t z)) zs)
     = map (\<lambda>z. map (map (map (\<lambda>p. (f z p, h z p)))) (t z)) zs"
  by (simp add: zip4d_def zip_map_same)

lemma foldl_max_Max: "foldl max (a::int) xs = Max (set (a # xs))"
proof (induction xs arbitrary: a)
  case Nil
  then show ?case by simp
next
  case (Cons x xs)
  have "foldl max a (x # xs) = Max (set (max a x # xs))"
    using Cons.IH [of "max a x"] by simp
  also have "\<dots> = Max (set (a # x # xs))"
    by (cases "xs = []") (auto simp: max.assoc)
  finally show ?case .
qed

lemma max_dim0_Max:
  assumes "s \<noteq> []"
  shows "max_dim0 s = Inr (Max (fst ` set s), Max (snd ` set s))"
proof -
  obtain h w rest where s: "s = (h, w) # rest"
    using assms by (cases s) auto
  show ?thesis
    unfolding s by (simp add: foldl_max_Max del: Max_insert)
qed

section \<open>The 32-bit cast\<close>

lemma int32_cast_id: "- 2147483648 \<le> n \<Longrightarrow> n < 2147483648 \<Longrightarrow> int32_cast n = n"
  by (simp add: int32_cast_def)

lemma int32_cast_range: "- 2147483648 \<le> int32_cast n \<and> int32_cast n < 2147483648"
proof -
  have "0 \<le> (n + 2147483648) mod 4294967296" "(n + 2147483648) mod 4294967296 < 4294967296"
    by simp_all
  then show ?thesis
    unfolding int32_cast_def by linarith
qed

lemma int32_cast_nonzero: "int32_cast n \<noteq> 0 \<Longrightarrow> n \<noteq> 0"
  by (auto simp: int32_cast_def)

section \<open>Matrix product\<close>

text \<open>
  On finite entries the product \<open>mat_mul44 A B\<close> acts as \<open>B\<close> followed by \<open>A\<close>: the
  combined matrix \<^verbatim>\<open>C_V @ V_G\<close> takes a grid index to the LiDAR frame first and to the
  camera frame second.
\<close>

lemma mat_mul44_composes:
  "mat_vec44 (mat_mul44 (fin44 A) (fin44 B)) (fin4 v)
     = mat_vec44 (fin44 A) (mat_vec44 (fin44 B) (fin4 v))"
proof -
  obtain a0 a1 a2 a3 where A: "A = (a0, a1, a2, a3)" by (cases A)
  obtain b0 b1 b2 b3 where B: "B = (b0, b1, b2, b3)" by (cases B)
  obtain a00 a01 a02 a03 where a0: "a0 = (a00, a01, a02, a03)" by (cases a0)
  obtain a10 a11 a12 a13 where a1: "a1 = (a10, a11, a12, a13)" by (cases a1)
  obtain a20 a21 a22 a23 where a2: "a2 = (a20, a21, a22, a23)" by (cases a2)
  obtain a30 a31 a32 a33 where a3: "a3 = (a30, a31, a32, a33)" by (cases a3)
  obtain b00 b01 b02 b03 where b0: "b0 = (b00, b01, b02, b03)" by (cases b0)
  obtain b10 b11 b12 b13 where b1: "b1 = (b10, b11, b12, b13)" by (cases b1)
  obtain b20 b21 b22 b23 where b2: "b2 = (b20, b21, b22, b23)" by (cases b2)
  obtain b30 b31 b32 b33 where b3: "b3 = (b30, b31, b32, b33)" by (cases b3)
  obtain v0 v1 v2 v3 where v: "v = (v0, v1, v2, v3)" by (cases v)
  show ?thesis
    unfolding A B a0 a1 a2 a3 b0 b1 b2 b3 v
    by (simp add: mat_mul44_def algebra_simps)
qed

lemma mat_mul44_identity: "mat_mul44 identity44 identity44 = identity44"
  by (simp add: mat_mul44_def identity44_def)

lemma mat_mul44_behind: "mat_mul44 behind_lidar_to_cam identity44 = behind_lidar_to_cam"
  by (simp add: mat_mul44_def identity44_def behind_lidar_to_cam_def)

lemma transform_point_identity_finite:
  "transform_point identity44 (Fin a, Fin b, Fin c) = (Fin a, Fin b, Fin c)"
  by (simp add: transform_point_def identity44_def eps_def)

lemma transform_point_behind_finite:
  "transform_point behind_lidar_to_cam (Fin a, Fin b, Fin c) = (Fin a, Fin b, Fin (c - 1))"
  by (simp add: transform_point_def behind_lidar_to_cam_def eps_def)

section \<open>Construction: closed form\<close>

lemma init_three:
  "init [X, Y, Z] [a0, a1, a2, b0, b1, b2] dc =
     (if int32_cast Y < 0 \<or> int32_cast Z < 0 \<or> int32_cast X < 0 then Inl StepsError
      else Inr \<lparr> grid_size = [X, Y, Z], pc_range = [a0, a1, a2, b0, b1, b2],
                 out_of_bounds_val = Fin (- 2), disc_cfg = dc,
                 pc_min = (a0, a1, a2), pc_max = (b0, b1, b2),
                 voxel_size = (fdiv (fsub b0 a0) (fl_of_int X),
                               fdiv (fsub b1 a1) (fl_of_int Y),
                               fdiv (fsub b2 a2) (fl_of_int Z)),
                 depth = int32_cast X, width = int32_cast Y, height = int32_cast Z,
                 voxel_grid =
                   \<lparr> dims = (Suc 0, nat (int32_cast X), nat (int32_cast Y), nat (int32_cast Z)),
                     elems = [center_grid (nat (int32_cast X)) (nat (int32_cast Y))
                                (nat (int32_cast Z))] \<rparr>,
                 grid_to_lidar = grid_to_lidar_unproject (a0, a1, a2)
                     (fdiv (fsub b0 a0) (fl_of_int X),
                      fdiv (fsub b1 a1) (fl_of_int Y),
                      fdiv (fsub b2 a2) (fl_of_int Z)) \<rparr>)"
  by (simp add: init_def create_meshgrid3d_def permute_01324_def tensor_map_def map4d_def
      Let_def voxel_center_def center_grid_def cong: map_cong)

lemma init_fields:
  assumes "init gs pr dc = Inr g"
  shows "length gs = 3" "length pr = 6"
    "0 \<le> int32_cast (gs ! 0)" "0 \<le> int32_cast (gs ! 1)" "0 \<le> int32_cast (gs ! 2)"
    "out_of_bounds_val g = Fin (- 2)" "disc_cfg g = dc"
    "voxel_grid g =
       \<lparr> dims = (Suc 0, nat (int32_cast (gs ! 0)), nat (int32_cast (gs ! 1)),
                 nat (int32_cast (gs ! 2))),
         elems = [center_grid (nat (int32_cast (gs ! 0))) (nat (int32_cast (gs ! 1)))
                    (nat (int32_cast (gs ! 2)))] \<rparr>"
    "grid_to_lidar g = grid_to_lidar_unproject (pr ! 0, pr ! 1, pr ! 2)
        (fdiv (fsub (pr ! 3) (pr ! 0)) (fl_of_int (gs ! 0)),
         fdiv (fsub (pr ! 4) (pr ! 1)) (fl_of_int (gs ! 1)),
         fdiv (fsub (pr ! 5) (pr ! 2)) (fl_of_int (gs ! 2)))"
    "depth g = int32_cast (gs ! 0)" "width g = int32_cast (gs ! 1)"
    "height g = int32_cast (gs ! 2)"
    "voxel_size g = (fdiv (fsub (pr ! 3) (pr ! 0)) (fl_of_int (gs ! 0)),
         fdiv (fsub (pr ! 4) (pr ! 1)) (fl_of_int (gs ! 1)),
         fdiv (fsub (pr ! 5) (pr ! 2)) (fl_of_int (gs ! 2)))"
  using assms
  by (auto simp: init_def create_meshgrid3d_def permute_01324_def tensor_map_def map4d_def
      Let_def voxel_center_def center_grid_def split: if_splits cong: map_cong)

lemma center_grid_nth:
  "x < X \<Longrightarrow> y < Y \<Longrightarrow> z < Z \<Longrightarrow> center_grid X Y Z ! x ! y ! z = voxel_center x y z"
  by (simp add: center_grid_def)

lemma center_grid_length:
  "length (center_grid X Y Z) = X"
  "x < X \<Longrightarrow> length (center_grid X Y Z ! x) = Y"
  "x < X \<Longrightarrow> y < Y \<Longrightarrow> length (center_grid X Y Z ! x ! y) = Z"
  by (simp_all add: center_grid_def)

section \<open>The per-call pipeline: closed form\<close>

lemma transform_points_single:
  assumes "0 < n3" and "C_V \<noteq> []"
  shows "transform_points (map (\<lambda>C. mat_mul44 C V_G) C_V)
       (repeat_interleave (length C_V) \<lparr> dims = (Suc 0, n1, n2, n3), elems = [vg] \<rparr>)
     = Inr \<lparr> dims = (length C_V, n1, n2, n3),
             elems = map (\<lambda>C. map (map (map (transform_point (mat_mul44 C V_G)))) vg) C_V \<rparr>"
  using assms
  by (simp add: transform_points_def repeat_interleave_def zip_map1 zip_replicate_length)

lemma transform_points_empty_last:
  "transform_points (map (\<lambda>C. mat_mul44 C V_G) C_V)
       (repeat_interleave (length C_V) \<lparr> dims = (Suc 0, n1, n2, 0), elems = [vg] \<rparr>)
     = Inl ShapeError"
  by (simp add: transform_points_def repeat_interleave_def)

lemma transform_points_empty_batch:
  assumes "0 < n3"
  shows "transform_points (map (\<lambda>C. mat_mul44 C V_G) [])
       (repeat_interleave (length ([] :: mat44 list)) \<lparr> dims = (Suc 0, n1, n2, n3), elems = [vg] \<rparr>)
     = Inl ZeroDivisionError"
  using assms by (simp add: transform_points_def repeat_interleave_def)

lemma project_to_image_single:
  "project_to_image I_C (map (\<lambda>C. map (map (map (tp C))) vg) C_V) =
     (map (\<lambda>z. map (map (map (\<lambda>p. fst (project_point (snd z) (tp (fst z) p))))) vg) (zip C_V I_C),
      map (\<lambda>z. map (map (map (\<lambda>p. snd (project_point (snd z) (tp (fst z) p))))) vg) (zip C_V I_C))"
  by (simp add: project_to_image_def zip_map2 zip_commute [of I_C C_V] comp_def case_prod_beta)

lemma stack_frustum_single:
  "stack_frustum bd dc (project_to_image I_C (map (\<lambda>C. map (map (map (tp C))) vg) C_V))
     = map (\<lambda>(C, P). map (map (map (\<lambda>p. case project_point P (tp C p) of
                                           ((u, v), d) \<Rightarrow> (u, v, bd dc d)))) vg) (zip C_V I_C)"
  by (simp add: stack_frustum_def project_to_image_single map4d_def comp_def zip4d_map_same
      case_prod_beta)

lemma transform_grid_single:
  assumes "0 < n3" and "C_V \<noteq> []" and "length I_C = length C_V"
  shows "transform_grid bd g \<lparr> dims = (Suc 0, n1, n2, n3), elems = [vg] \<rparr> V_G C_V I_C =
     Inr (map (\<lambda>(C, P). map (map (map (frustum_point bd (disc_cfg g) V_G C P))) vg) (zip C_V I_C))"
  using assms
  by (simp add: transform_grid_def transform_points_single stack_frustum_single Let_def
      frustum_point_def case_prod_beta)

lemma transform_grid_errors:
  shows "transform_grid bd g \<lparr> dims = (Suc 0, n1, n2, 0), elems = [vg] \<rparr> V_G C_V I_C = Inl ShapeError"
    and "0 < n3 \<Longrightarrow>
         transform_grid bd g \<lparr> dims = (Suc 0, n1, n2, n3), elems = [vg] \<rparr> V_G [] I_C
           = Inl ZeroDivisionError"
    and "0 < n3 \<Longrightarrow> C_V \<noteq> [] \<Longrightarrow> length I_C \<noteq> length C_V \<Longrightarrow>
         transform_grid bd g \<lparr> dims = (Suc 0, n1, n2, n3), elems = [vg] \<rparr> V_G C_V I_C
           = Inl ShapeError"
  using transform_points_empty_batch [of n3 V_G n1 n2 vg]
  by (simp_all add: transform_grid_def transform_points_empty_last transform_points_single
      Let_def)

lemma normalized_grid_single:
  assumes "voxel_grid g = \<lparr> dims = (Suc 0, n1, n2, n3), elems = [vg] \<rparr>"
    and "0 < n3" and "C_V \<noteq> []" and "length I_C = length C_V"
  shows "normalized_grid bd g C_V I_C ((h, w) # rest) =
     Inr (map (\<lambda>(C, P). map (map (map (\<lambda>p.
            normalize_point (num_bins (disc_cfg g), foldl max h (map fst rest), foldl max w (map snd rest))
              (frustum_point bd (disc_cfg g) (grid_to_lidar g) C P p)))) vg) (zip C_V I_C))"
  using assms
  by (simp add: normalized_grid_def transform_grid_single normalize_coords_def map4d_def
      comp_def case_prod_beta)

lemma forward_single:
  assumes "voxel_grid g = \<lparr> dims = (Suc 0, n1, n2, n3), elems = [vg] \<rparr>"
    and "0 < n3" and "C_V \<noteq> []" and "length I_C = length C_V"
  shows "forward bd g C_V I_C ((h, w) # rest) =
     Inr (map (\<lambda>(C, P). map (map (map (\<lambda>p. mask_point (out_of_bounds_val g)
            (normalize_point (num_bins (disc_cfg g), foldl max h (map fst rest), foldl max w (map snd rest))
              (frustum_point bd (disc_cfg g) (grid_to_lidar g) C P p))))) vg) (zip C_V I_C))"
  using assms
  by (simp add: forward_def normalized_grid_single map4d_def comp_def case_prod_beta)

lemma forward_errors:
  assumes "voxel_grid g = \<lparr> dims = (Suc 0, n1, n2, n3), elems = [vg] \<rparr>"
  shows "n3 = 0 \<Longrightarrow> forward bd g C_V I_C s = Inl ShapeError"
    and "0 < n3 \<Longrightarrow> C_V = [] \<Longrightarrow> forward bd g C_V I_C s = Inl ZeroDivisionError"
    and "0 < n3 \<Longrightarrow> C_V \<noteq> [] \<Longrightarrow> length I_C \<noteq> length C_V \<Longrightarrow>
           forward bd g C_V I_C s = Inl ShapeError"
    and "0 < n3 \<Longrightarrow> C_V \<noteq> [] \<Longrightarrow> length I_C = length C_V \<Longrightarrow>
           forward bd g C_V I_C [] = Inl EmptyReduceError"
  using assms
  by (simp_all add: forward_def normalized_grid_def transform_grid_errors transform_grid_single)

lemma normalize_axis_finite:
  "n \<noteq> 1 \<Longrightarrow> normalize_axis (Fin r) n = Fin (2 * r / (of_int n - 1) - 1)"
  by (simp add: normalize_axis_def fsub_def fl_of_int_def)

lemma mask_scalar_finite: "isfinite oob \<Longrightarrow> isfinite (mask_scalar oob x)"
  by (simp add: mask_scalar_def)

section \<open>The store: every call allocates, none writes to an allocated tensor\<close>

lemma transform_grid_on_store_refines:
  shows "(case fst (transform_grid_on_store bd g a V_G C_V I_C h) of
      Inl e \<Rightarrow> Inl e
    | Inr p \<Rightarrow> Inr (elems (cells (snd (transform_grid_on_store bd g a V_G C_V I_C h)) p)))
     = transform_grid bd g (cells h a) V_G C_V I_C"
    "\<forall>b<next_free h. cells (snd (transform_grid_on_store bd g a V_G C_V I_C h)) b = cells h b"
    "next_free h \<le> next_free (snd (transform_grid_on_store bd g a V_G C_V I_C h))"
  by (simp_all add: transform_grid_on_store_def transform_grid_def alloc_def Let_def
      split: sum.splits)

lemma forward_on_store_refines:
  assumes "cells h (voxel_grid_at self) = voxel_grid (attrs self)"
  shows "returned (forward_on_store bd self C_V I_C s h) = forward bd (attrs self) C_V I_C s"
proof -
  let ?t = "transform_grid_on_store bd (attrs self) (voxel_grid_at self)
              (grid_to_lidar (attrs self)) C_V I_C h"
  note r = transform_grid_on_store_refines(1) [of bd "attrs self" "voxel_grid_at self"
      "grid_to_lidar (attrs self)" C_V I_C h]
  show ?thesis
    using r assms
    by (cases ?t; cases "fst ?t")
       (auto simp: forward_on_store_def forward_def normalized_grid_def returned_def alloc_def
          masked_write_def tensor_map_def Let_def split: sum.splits prod.splits)
qed

lemma forward_on_store_frame:
  shows "\<forall>b<next_free h. cells (snd (forward_on_store bd self C_V I_C s h)) b = cells h b"
    and "next_free h \<le> next_free (snd (forward_on_store bd self C_V I_C s h))"
proof -
  let ?t = "transform_grid_on_store bd (attrs self) (voxel_grid_at self)
              (grid_to_lidar (attrs self)) C_V I_C h"
  note f = transform_grid_on_store_refines(2,3) [of h bd "attrs self" "voxel_grid_at self"
      "grid_to_lidar (attrs self)" C_V I_C]
  show "\<forall>b<next_free h. cells (snd (forward_on_store bd self C_V I_C s h)) b = cells h b"
    using f
    by (cases ?t; cases "fst ?t")
       (auto simp: forward_on_store_def alloc_def masked_write_def Let_def
          split: sum.splits prod.splits)
  show "next_free h \<le> next_free (snd (forward_on_store bd self C_V I_C s h))"
    using f
    by (cases ?t; cases "fst ?t")
       (auto simp: forward_on_store_def alloc_def masked_write_def Let_def
          split: sum.splits prod.splits)
qed

lemma forward_on_store_result_allocated:
  "fst (forward_on_store bd self C_V I_C s h) = Inr p \<Longrightarrow>
     p < next_free (snd (forward_on_store bd self C_V I_C s h))"
  by (cases "transform_grid_on_store bd (attrs self) (voxel_grid_at self)
              (grid_to_lidar (attrs self)) C_V I_C h";
      cases "fst (transform_grid_on_store bd (attrs self) (voxel_grid_at self)
              (grid_to_lidar (attrs self)) C_V I_C h)")
     (auto simp: forward_on_store_def alloc_def masked_write_def Let_def
        split: sum.splits prod.splits)

lemma init_on_store_result:
  assumes "init_on_store gs pr dc h0 = (Inr self, h)"
  shows "init gs pr dc = Inr (attrs self)"
    and "cells h (voxel_grid_at self) = voxel_grid (attrs self)"
    and "voxel_grid_at self < next_free h"
  using assms
  by (auto simp: init_on_store_def alloc_def Let_def split: sum.splits)

lemma init_on_store_frame:
  shows "\<forall>b<next_free h. cells (snd (init_on_store gs pr dc h)) b = cells h b"
    and "next_free h \<le> next_free (snd (init_on_store gs pr dc h))"
  by (auto simp: init_on_store_def alloc_def Let_def split: sum.splits)

lemma init_on_store_success:
  "init gs pr dc = Inr g \<Longrightarrow>
     fst (init_on_store gs pr dc h) = Inr \<lparr> attrs = g, voxel_grid_at = next_free h \<rparr>"
  by (simp add: init_on_store_def alloc_def Let_def)

section \<open>The scenario generator and concrete calls\<close>

lemma scenario_init: "init [2, 2, 2] scenario_range scenario_cfg = Inr scenario_generator"
  by (simp add: scenario_generator_def scenario_range_def init_three int32_cast_def)

lemma scenario_voxel_grid:
  "voxel_grid scenario_generator = \<lparr> dims = (Suc 0, 2, 2, 2), elems = [center_grid 2 2 2] \<rparr>"
  using init_fields(8) [OF scenario_init] by (simp add: int32_cast_def)

lemma scenario_grid_to_lidar: "grid_to_lidar scenario_generator = identity44"
  using init_fields(9) [OF scenario_init]
  by (simp add: scenario_range_def fsub_def fl_of_int_def identity44_def)

lemma scenario_disc_cfg: "disc_cfg scenario_generator = scenario_cfg"
  using init_fields(7) [OF scenario_init] by simp

lemma scenario_oob: "out_of_bounds_val scenario_generator = Fin (- 2)"
  using init_fields(6) [OF scenario_init] by simp

lemma scenario_num_bins: "num_bins scenario_cfg = 2"
  by (simp add: scenario_cfg_def)

lemmas scenario_simps = scenario_grid_to_lidar scenario_disc_cfg scenario_oob scenario_num_bins

lemma center_grid_2_origin: "center_grid 2 2 2 ! 0 ! 0 ! 0 = voxel_center 0 0 0"
  by (simp add: center_grid_nth)

lemma center_grid_2_shape:
  "length (center_grid 2 2 2) = 2" "length (center_grid 2 2 2 ! 0) = 2"
  "length (center_grid 2 2 2 ! 0 ! 0) = 2"
  by (simp_all add: center_grid_length)

lemmas center_grid_2 = center_grid_2_origin center_grid_2_shape

lemma scenario_frustum_point_any:
  "frustum_point bd scenario_cfg identity44 identity44 scenario_cam_to_img (voxel_center 0 0 0)
     = (Fin 1, Fin 1, bd scenario_cfg (Fin (1/2)))"
  by (simp add: frustum_point_def mat_mul44_identity voxel_center_def
      transform_point_identity_finite project_point_def scenario_cam_to_img_def)

lemma scenario_frustum_point:
  "frustum_point uniform_bin_depths scenario_cfg identity44 identity44 scenario_cam_to_img
      (voxel_center 0 0 0) = (Fin 1, Fin 1, Fin 0)"
  by (simp add: frustum_point_def mat_mul44_identity voxel_center_def
      transform_point_identity_finite project_point_def scenario_cam_to_img_def scenario_cfg_def)

lemma zero_depth_frustum_point:
  "frustum_point uniform_bin_depths scenario_cfg identity44 identity44 zero_depth_cam_to_img
      (voxel_center 0 0 0) = (PInf, PInf, Fin 0)"
  by (simp add: frustum_point_def mat_mul44_identity voxel_center_def
      transform_point_identity_finite project_point_def zero_depth_cam_to_img_def scenario_cfg_def)

lemma corner_frustum_point:
  "frustum_point uniform_bin_depths scenario_cfg identity44 identity44 corner_cam_to_img
      (voxel_center 0 0 0) = (Fin 0, Fin 0, Fin 0)"
  by (simp add: frustum_point_def mat_mul44_identity voxel_center_def
      transform_point_identity_finite project_point_def corner_cam_to_img_def scenario_cfg_def)

lemma behind_frustum_point:
  "frustum_point uniform_bin_depths scenario_cfg identity44 behind_lidar_to_cam scenario_cam_to_img
      (voxel_center 0 0 0) = (Fin (- 1), Fin (- 1), Fin 0)"
  by (simp add: frustum_point_def mat_mul44_behind voxel_center_def
      transform_point_behind_finite project_point_def scenario_cam_to_img_def scenario_cfg_def)

lemma mixed_normalized_grid:
  "normalized_grid uniform_bin_depths scenario_generator mixed_lidar_to_cam mixed_cam_to_img [(2, 2)]
     = Inr mixed_normalized"
  by (simp add: mixed_normalized_def mixed_lidar_to_cam_def mixed_cam_to_img_def
      normalized_grid_single [OF scenario_voxel_grid])

lemma mixed_normalized_shape:
  "length mixed_normalized = 2"
  "length (mixed_normalized ! 0) = 2" "length (mixed_normalized ! 1) = 2"
  "length (mixed_normalized ! 0 ! 0) = 2" "length (mixed_normalized ! 1 ! 0) = 2"
  "length (mixed_normalized ! 0 ! 0 ! 0) = 2" "length (mixed_normalized ! 1 ! 0 ! 0) = 2"
  by (simp_all add: mixed_normalized_def mixed_lidar_to_cam_def mixed_cam_to_img_def
      normalized_grid_single [OF scenario_voxel_grid] center_grid_2)

lemma mixed_normalized_values:
  "mixed_normalized ! 0 ! 0 ! 0 ! 0 = (PInf, PInf, Fin (- 1))"
  "mixed_normalized ! 1 ! 0 ! 0 ! 0 = (Fin (- 3), Fin (- 3), Fin (- 1))"
  by (simp_all add: mixed_normalized_def mixed_lidar_to_cam_def mixed_cam_to_img_def
      normalized_grid_single [OF scenario_voxel_grid] center_grid_2 scenario_simps
      zero_depth_frustum_point behind_frustum_point normalize_axis_def fsub_def fl_of_int_def)

lemma mixed_forward:
  "forward uniform_bin_depths scenario_generator mixed_lidar_to_cam mixed_cam_to_img [(2, 2)]
     = Inr mixed_output"
  by (simp add: mixed_output_def mixed_lidar_to_cam_def mixed_cam_to_img_def
      forward_single [OF scenario_voxel_grid])

lemma mixed_output_shape:
  "length mixed_output = 2"
  "length (mixed_output ! 0) = 2" "length (mixed_output ! 1) = 2"
  "length (mixed_output ! 0 ! 0) = 2" "length (mixed_output ! 1 ! 0) = 2"
  "length (mixed_output ! 0 ! 0 ! 0) = 2" "length (mixed_output ! 1 ! 0 ! 0) = 2"
  by (simp_all add: mixed_output_def mixed_lidar_to_cam_def mixed_cam_to_img_def
      forward_single [OF scenario_voxel_grid] center_grid_2)

lemma mixed_output_values:
  "mixed_output ! 0 ! 0 ! 0 ! 0 = (Fin (- 2), Fin (- 2), Fin (- 1))"
  "mixed_output ! 1 ! 0 ! 0 ! 0 = (Fin (- 3), Fin (- 3), Fin (- 1))"
  by (simp_all add: mixed_output_def mixed_lidar_to_cam_def mixed_cam_to_img_def
      forward_single [OF scenario_voxel_grid] center_grid_2 scenario_simps
      zero_depth_frustum_point behind_frustum_point normalize_axis_def fsub_def fl_of_int_def
      mask_scalar_def)

lemma two_camera_transform_grid:
  "transform_grid uniform_bin_depths scenario_generator (voxel_grid scenario_generator)
        (grid_to_lidar scenario_generator) [identity44, behind_lidar_to_cam]
        [scenario_cam_to_img, scenario_cam_to_img] = Inr two_camera_raw"
  by (simp add: two_camera_raw_def scenario_voxel_grid transform_grid_single)

lemma wide_init: "init [2, 2, 2] wide_range scenario_cfg = Inr wide_generator"
  by (simp add: wide_generator_def wide_range_def init_three int32_cast_def)

section \<open>Construction failures\<close>

text \<open>
  Claim C2, as the code has it. The constructor validates neither the grid size nor the
  range. It fails exactly when a grid size, cast to 32 bits on line 33, is negative,
  because the mesh primitive rejects a negative number of steps; a grid size within the
  32-bit range is its own cast, so there construction fails exactly for a negative grid
  size. Otherwise it returns a generator whose voxel size on each axis is
  \<open>(max - min) / grid_size\<close>, whatever the sign: for a positive grid size the voxel
  size is zero or negative exactly when \<open>max \<le> min\<close>, and for a grid size of zero it
  is an infinity or NaN.
\<close>

theorem construction_rejects_only_negative_sizes:
  shows "(int32_cast X < 0 \<or> int32_cast Y < 0 \<or> int32_cast Z < 0 \<longrightarrow>
            init [X, Y, Z] [Fin x0, Fin y0, Fin z0, Fin x1, Fin y1, Fin z1] dc = Inl StepsError)
    \<and> (0 \<le> int32_cast X \<and> 0 \<le> int32_cast Y \<and> 0 \<le> int32_cast Z \<longrightarrow>
         (\<exists>g. init [X, Y, Z] [Fin x0, Fin y0, Fin z0, Fin x1, Fin y1, Fin z1] dc = Inr g
            \<and> voxel_size g = (fdiv (Fin (x1 - x0)) (Fin (of_int X)),
                               fdiv (Fin (y1 - y0)) (Fin (of_int Y)),
                               fdiv (Fin (z1 - z0)) (Fin (of_int Z)))))
    \<and> (- 2147483648 \<le> X \<and> X < 2147483648 \<longrightarrow> int32_cast X = X)
    \<and> (0 < X \<longrightarrow> fdiv (Fin (x1 - x0)) (Fin (of_int X)) = Fin ((x1 - x0) / of_int X)
                  \<and> ((x1 - x0) / of_int X \<le> 0 \<longleftrightarrow> x1 \<le> x0))
    \<and> (X = 0 \<longrightarrow> \<not> isfinite (fdiv (Fin (x1 - x0)) (Fin (of_int X))))"
proof -
  have cast: "- 2147483648 \<le> X \<and> X < 2147483648 \<longrightarrow> int32_cast X = X"
    by (simp add: int32_cast_id)
  have rest: "(int32_cast X < 0 \<or> int32_cast Y < 0 \<or> int32_cast Z < 0 \<longrightarrow>
            init [X, Y, Z] [Fin x0, Fin y0, Fin z0, Fin x1, Fin y1, Fin z1] dc = Inl StepsError)
    \<and> (0 \<le> int32_cast X \<and> 0 \<le> int32_cast Y \<and> 0 \<le> int32_cast Z \<longrightarrow>
         (\<exists>g. init [X, Y, Z] [Fin x0, Fin y0, Fin z0, Fin x1, Fin y1, Fin z1] dc = Inr g
            \<and> voxel_size g = (fdiv (Fin (x1 - x0)) (Fin (of_int X)),
                               fdiv (Fin (y1 - y0)) (Fin (of_int Y)),
                               fdiv (Fin (z1 - z0)) (Fin (of_int Z)))))"
    by (auto simp: init_three fsub_def fl_of_int_def)
  have sign: "(0 < X \<longrightarrow> fdiv (Fin (x1 - x0)) (Fin (of_int X)) = Fin ((x1 - x0) / of_int X)
                  \<and> ((x1 - x0) / of_int X \<le> 0 \<longleftrightarrow> x1 \<le> x0))
    \<and> (X = 0 \<longrightarrow> \<not> isfinite (fdiv (Fin (x1 - x0)) (Fin (of_int X))))"
    by (auto simp: divide_le_0_iff)
  from cast rest sign show ?thesis by blast
qed

theorem construction_rejects_only_negative_sizes_witness:
  "(int32_cast (- 1) < 0 \<or> int32_cast 2 < 0 \<or> int32_cast 2 < 0)
   \<and> init [- 1, 2, 2] scenario_range scenario_cfg = Inl StepsError
   \<and> (int32_cast 2147483648 < 0 \<or> int32_cast 2 < 0 \<or> int32_cast 2 < 0)
   \<and> init [2147483648, 2, 2] scenario_range scenario_cfg = Inl StepsError
   \<and> 0 \<le> int32_cast 2 \<and> - 2147483648 \<le> (2::int) \<and> (2::int) < 2147483648
   \<and> int32_cast 2 = 2 \<and> (0::int) < 2
   \<and> (\<exists>g. init [2, 2, 2] [Fin 0, Fin 0, Fin 0, Fin 0, Fin 2, Fin (- 2)] scenario_cfg = Inr g
          \<and> voxel_size g = (Fin 0, Fin 1, Fin (- 1)))
   \<and> 0 \<le> int32_cast 0
   \<and> (\<exists>g. init [0, 2, 2] scenario_range scenario_cfg = Inr g
          \<and> voxel_size g = (PInf, Fin 1, Fin 1))
   \<and> \<not> isfinite (fdiv (Fin (2 - 0)) (Fin (of_int 0)))"
proof -
  have c: "int32_cast (- 1) = - 1" "int32_cast 2 = 2" "int32_cast 0 = 0"
      "int32_cast 2147483648 = - 2147483648"
    by (simp_all add: int32_cast_def)
  show ?thesis
    using construction_rejects_only_negative_sizes [of "- 1" 2 2 0 0 0 2 2 2 scenario_cfg]
      construction_rejects_only_negative_sizes [of 2147483648 2 2 0 0 0 2 2 2 scenario_cfg]
      construction_rejects_only_negative_sizes [of 2 2 2 0 0 0 0 2 "- 2" scenario_cfg]
      construction_rejects_only_negative_sizes [of 0 2 2 0 0 0 2 2 2 scenario_cfg]
    by (simp add: scenario_range_def c)
qed

text \<open>
  Claim C2 as stated fails: with the range \<open>[0, 0, 0, 0, 2, 2]\<close>, whose maximum equals its
  minimum on the first axis, construction returns a generator, and its voxel size on that
  axis is zero.
\<close>

theorem construction_accepts_empty_range_counterexample:
  "\<not> isl (init [2, 2, 2] [Fin 0, Fin 0, Fin 0, Fin 0, Fin 2, Fin 2] scenario_cfg)
   \<and> voxel_size (projr (init [2, 2, 2] [Fin 0, Fin 0, Fin 0, Fin 0, Fin 2, Fin 2] scenario_cfg))
       = (Fin 0, Fin 1, Fin 1)"
  by (simp add: init_three fsub_def fl_of_int_def int32_cast_def)

section \<open>Voxel size and the grid-to-LiDAR matrix\<close>

text \<open>
  Claim C4. For a configuration with positive grid sizes and a finite range,
  construction succeeds when the grid sizes are below \<open>2^31\<close>, and every generator that
  construction returns has the voxel size \<open>(max - min) / grid_size\<close> on each axis and a
  grid-to-LiDAR matrix that sends the homogeneous index coordinate \<open>(gx, gy, gz, 1)\<close> to
  \<open>(gx * vx + x_min, gy * vy + y_min, gz * vz + z_min, 1)\<close>; in particular it sends
  \<open>(0.5, 0.5, 0.5, 1)\<close> to the point \<open>min + 0.5 * voxel_size\<close>. Arithmetic is exact.
\<close>

theorem grid_to_lidar_maps_index_to_world:
  assumes "0 < X" "0 < Y" "0 < Z"
  shows "(X < 2147483648 \<and> Y < 2147483648 \<and> Z < 2147483648 \<longrightarrow>
           (\<exists>g. init [X, Y, Z] [Fin x0, Fin y0, Fin z0, Fin x1, Fin y1, Fin z1] dc = Inr g))
     \<and> (\<forall>g. init [X, Y, Z] [Fin x0, Fin y0, Fin z0, Fin x1, Fin y1, Fin z1] dc = Inr g \<longrightarrow>
          voxel_size g = (Fin ((x1 - x0) / of_int X), Fin ((y1 - y0) / of_int Y),
                          Fin ((z1 - z0) / of_int Z))
        \<and> (\<forall>gx gy gz. mat_vec44 (grid_to_lidar g) (Fin gx, Fin gy, Fin gz, Fin 1) =
             (Fin (gx * ((x1 - x0) / of_int X) + x0),
              Fin (gy * ((y1 - y0) / of_int Y) + y0),
              Fin (gz * ((z1 - z0) / of_int Z) + z0), Fin 1))
        \<and> mat_vec44 (grid_to_lidar g) (Fin (1/2), Fin (1/2), Fin (1/2), Fin 1) =
             (Fin (x0 + 1/2 * ((x1 - x0) / of_int X)),
              Fin (y0 + 1/2 * ((y1 - y0) / of_int Y)),
              Fin (z0 + 1/2 * ((z1 - z0) / of_int Z)), Fin 1))"
proof -
  have ex: "X < 2147483648 \<and> Y < 2147483648 \<and> Z < 2147483648 \<longrightarrow>
           (\<exists>g. init [X, Y, Z] [Fin x0, Fin y0, Fin z0, Fin x1, Fin y1, Fin z1] dc = Inr g)"
    using assms by (simp add: init_three int32_cast_id)
  have val: "voxel_size g = (Fin ((x1 - x0) / of_int X), Fin ((y1 - y0) / of_int Y),
                          Fin ((z1 - z0) / of_int Z))
        \<and> (\<forall>gx gy gz. mat_vec44 (grid_to_lidar g) (Fin gx, Fin gy, Fin gz, Fin 1) =
             (Fin (gx * ((x1 - x0) / of_int X) + x0),
              Fin (gy * ((y1 - y0) / of_int Y) + y0),
              Fin (gz * ((z1 - z0) / of_int Z) + z0), Fin 1))
        \<and> mat_vec44 (grid_to_lidar g) (Fin (1/2), Fin (1/2), Fin (1/2), Fin 1) =
             (Fin (x0 + 1/2 * ((x1 - x0) / of_int X)),
              Fin (y0 + 1/2 * ((y1 - y0) / of_int Y)),
              Fin (z0 + 1/2 * ((z1 - z0) / of_int Z)), Fin 1)"
    if "init [X, Y, Z] [Fin x0, Fin y0, Fin z0, Fin x1, Fin y1, Fin z1] dc = Inr g" for g
    using init_fields(9,13) [OF that] assms by (simp add: fsub_def fl_of_int_def)
  from ex val show ?thesis by blast
qed

theorem grid_to_lidar_maps_index_to_world_witness:
  "(0::int) < 2 \<and> (0::int) < 4 \<and> (0::int) < 5
   \<and> (2::int) < 2147483648 \<and> (4::int) < 2147483648 \<and> (5::int) < 2147483648
   \<and> (\<exists>g. init [2, 4, 5] [Fin 0, Fin (- 2), Fin (- 4), Fin 2, Fin 2, Fin 1] scenario_cfg = Inr g
        \<and> voxel_size g = (Fin 1, Fin 1, Fin 1)
        \<and> mat_vec44 (grid_to_lidar g) (Fin 1, Fin 3, Fin 4, Fin 1)
            = (Fin 1, Fin 1, Fin 0, Fin 1)
        \<and> mat_vec44 (grid_to_lidar g) (Fin (1/2), Fin (1/2), Fin (1/2), Fin 1)
            = (Fin (1/2), Fin (- 3/2), Fin (- 7/2), Fin 1))"
proof -
  have pos: "(0::int) < 2" "(0::int) < 4" "(0::int) < 5"
    by simp_all
  note t = grid_to_lidar_maps_index_to_world [OF pos, of 0 "- 2" "- 4" 2 2 1 scenario_cfg]
  from t obtain g where
    g: "init [2, 4, 5] [Fin 0, Fin (- 2), Fin (- 4), Fin 2, Fin 2, Fin 1] scenario_cfg = Inr g"
    by auto
  from t g have v: "voxel_size g = (Fin 1, Fin 1, Fin 1)"
    and m: "\<And>gx gy gz. mat_vec44 (grid_to_lidar g) (Fin gx, Fin gy, Fin gz, Fin 1)
         = (Fin gx, Fin (gy - 2), Fin (gz - 4), Fin 1)"
    by auto
  show ?thesis
    using g v m [of 1 3 4] m [of "1/2" "1/2" "1/2"] by auto
qed

section \<open>The voxel grid\<close>




section \<open>The combined transform\<close>

text \<open>
  Claim C6. For every camera \<open>b\<close> of the batch and every voxel \<open>(x, y, z)\<close>, the camera
  grid of \<^verbatim>\<open>transform_grid\<close> holds the voxel centre transformed by the single matrix
  \<open>lidar_to_cam[b] @ grid_to_lidar\<close>, the shared voxel grid being repeated once per
  camera: for a finite LiDAR-to-camera matrix this is the matrix applied to the centre of
  the voxel in the LiDAR frame, \<open>(index + 0.5) * voxel_size + min\<close> on each axis, and for
  a matrix with the last row \<open>(0, 0, 0, 1)\<close> its three rows applied to that centre. The
  camera grid and the returned frustum grid have the camera batch as leading dimension,
  followed by the three dimensions of the voxel grid in their order, and the frustum
  triple of a voxel is the projection of its camera point with \<open>cam_to_img[b]\<close> and the
  bin of its depth.
\<close>

theorem transform_grid_applies_combined_transform:
  assumes "init [X, Y, Z] [Fin x0, Fin y0, Fin z0, Fin x1, Fin y1, Fin z1] dc = Inr g"
    and "length I_C = length C_V" and "b < length C_V"
    and "C_V ! b = fin44 (r0, r1, r2, r3)"
    and "dims (voxel_grid g) = (n0, n1, n2, n3)"
    and "x < n1" and "y < n2" and "z < n3"
  shows "\<exists>cg fg.
      transform_points (map (\<lambda>C. mat_mul44 C (grid_to_lidar g)) C_V)
          (repeat_interleave (length C_V) (voxel_grid g)) = Inr cg
    \<and> transform_grid bd g (voxel_grid g) (grid_to_lidar g) C_V I_C = Inr fg
    \<and> dims cg = (length C_V, n1, n2, n3)
    \<and> length (elems cg) = length C_V \<and> length fg = length C_V
    \<and> length (elems cg ! b) = n1 \<and> length (fg ! b) = n1
    \<and> length (elems cg ! b ! x) = n2 \<and> length (fg ! b ! x) = n2
    \<and> length (elems cg ! b ! x ! y) = n3 \<and> length (fg ! b ! x ! y) = n3
    \<and> elems cg ! b ! x ! y ! z
         = transform_point (mat_mul44 (C_V ! b) (grid_to_lidar g))
             (elems (voxel_grid g) ! 0 ! x ! y ! z)
    \<and> elems cg ! b ! x ! y ! z
         = convert_points_from_homogeneous
             (mat_vec44 (C_V ! b)
                (Fin (lidar_center x0 ((x1 - x0) / of_int X) x),
                 Fin (lidar_center y0 ((y1 - y0) / of_int Y) y),
                 Fin (lidar_center z0 ((z1 - z0) / of_int Z) z), Fin 1))
    \<and> (r3 = (0, 0, 0, 1) \<longrightarrow>
         elems cg ! b ! x ! y ! z
           = (affine_row r0 (lidar_center x0 ((x1 - x0) / of_int X) x,
                             lidar_center y0 ((y1 - y0) / of_int Y) y,
                             lidar_center z0 ((z1 - z0) / of_int Z) z),
              affine_row r1 (lidar_center x0 ((x1 - x0) / of_int X) x,
                             lidar_center y0 ((y1 - y0) / of_int Y) y,
                             lidar_center z0 ((z1 - z0) / of_int Z) z),
              affine_row r2 (lidar_center x0 ((x1 - x0) / of_int X) x,
                             lidar_center y0 ((y1 - y0) / of_int Y) y,
                             lidar_center z0 ((z1 - z0) / of_int Z) z)))
    \<and> fg ! b ! x ! y ! z
         = (case project_point (I_C ! b) (elems cg ! b ! x ! y ! z) of
              ((u, v), d) \<Rightarrow> (u, v, bd (disc_cfg g) d))"
proof -
  note f = init_fields [OF assms(1)]
  have d: "n1 = nat (int32_cast X)" "n2 = nat (int32_cast Y)" "n3 = nat (int32_cast Z)"
    using f(8) assms(5) by simp_all
  have nz: "X \<noteq> 0" "Y \<noteq> 0" "Z \<noteq> 0"
    using assms(6-8) d int32_cast_nonzero [of X] int32_cast_nonzero [of Y]
      int32_cast_nonzero [of Z]
    by auto
  have ne: "C_V \<noteq> []" and n3: "0 < nat (int32_cast Z)"
    using assms(3,8) d by auto
  let ?vx = "(x1 - x0) / of_int X" and ?vy = "(y1 - y0) / of_int Y"
    and ?vz = "(z1 - z0) / of_int Z"
  have G: "grid_to_lidar g = fin44 ((?vx, 0, 0, x0), (0, ?vy, 0, y0), (0, 0, ?vz, z0), (0, 0, 0, 1))"
    using f(9) nz by (simp add: fsub_def fl_of_int_def)
  have vc: "convert_points_to_homogeneous (voxel_center x y z)
      = fin4 (real x + 1/2, real y + 1/2, real z + 1/2, 1)"
    by (simp add: voxel_center_def)
  have world: "mat_vec44 (fin44 ((?vx, 0, 0, x0), (0, ?vy, 0, y0), (0, 0, ?vz, z0), (0, 0, 0, 1)))
        (fin4 (real x + 1/2, real y + 1/2, real z + 1/2, 1))
      = (Fin (lidar_center x0 ?vx x), Fin (lidar_center y0 ?vy y), Fin (lidar_center z0 ?vz z),
         Fin 1)"
    by (simp add: lidar_center_def algebra_simps)
  have comp: "transform_point (mat_mul44 (C_V ! b) (grid_to_lidar g)) (voxel_center x y z)
      = convert_points_from_homogeneous
          (mat_vec44 (C_V ! b)
             (Fin (lidar_center x0 ?vx x), Fin (lidar_center y0 ?vy y),
              Fin (lidar_center z0 ?vz z), Fin 1))"
    unfolding transform_point_def vc assms(4) G mat_mul44_composes world ..
  have aff: "convert_points_from_homogeneous
          (mat_vec44 (fin44 (r0, r1, r2, (0, 0, 0, 1)))
             (Fin wx, Fin wy, Fin wz, Fin 1))
      = (affine_row r0 (wx, wy, wz), affine_row r1 (wx, wy, wz), affine_row r2 (wx, wy, wz))"
    for wx wy wz
    by (cases r0; cases r1; cases r2) (simp add: eps_def)
  define vg where "vg = center_grid n1 n2 n3"
  define cg where "cg = \<lparr> dims = (length C_V, n1, n2, n3),
      elems = map (\<lambda>C. map (map (map (transform_point (mat_mul44 C (grid_to_lidar g))))) vg) C_V \<rparr>"
  define fg where "fg = map (\<lambda>(C, P). map (map (map
      (frustum_point bd (disc_cfg g) (grid_to_lidar g) C P))) vg) (zip C_V I_C)"
  have vgrid: "voxel_grid g = \<lparr> dims = (Suc 0, n1, n2, n3), elems = [vg] \<rparr>"
    using f(8) d by (simp add: vg_def)
  have pos: "0 < n3"
    using assms(8) by simp
  have tp: "transform_points (map (\<lambda>C. mat_mul44 C (grid_to_lidar g)) C_V)
          (repeat_interleave (length C_V) (voxel_grid g)) = Inr cg"
    unfolding vgrid cg_def by (rule transform_points_single [OF pos ne])
  have tg: "transform_grid bd g (voxel_grid g) (grid_to_lidar g) C_V I_C = Inr fg"
    unfolding vgrid fg_def by (rule transform_grid_single [OF pos ne assms(2)])
  have shape: "dims cg = (length C_V, n1, n2, n3)"
      "length (elems cg) = length C_V" "length fg = length C_V"
      "length (elems cg ! b) = n1" "length (fg ! b) = n1"
      "length (elems cg ! b ! x) = n2" "length (fg ! b ! x) = n2"
      "length (elems cg ! b ! x ! y) = n3" "length (fg ! b ! x ! y) = n3"
    using assms(2,3,6,7,8) by (simp_all add: cg_def fg_def vg_def center_grid_length)
  have src: "elems (voxel_grid g) ! 0 ! x ! y ! z = voxel_center x y z"
    using assms(6-8) by (simp add: vgrid vg_def center_grid_nth)
  have e: "elems cg ! b ! x ! y ! z
      = transform_point (mat_mul44 (C_V ! b) (grid_to_lidar g)) (voxel_center x y z)"
    using assms(2,3,6,7,8) by (simp add: cg_def vg_def center_grid_length center_grid_nth)
  have fe: "fg ! b ! x ! y ! z
      = frustum_point bd (disc_cfg g) (grid_to_lidar g) (C_V ! b) (I_C ! b) (voxel_center x y z)"
    using assms(2,3,6,7,8) by (simp add: fg_def vg_def center_grid_length center_grid_nth)
  have c1: "elems cg ! b ! x ! y ! z
         = transform_point (mat_mul44 (C_V ! b) (grid_to_lidar g))
             (elems (voxel_grid g) ! 0 ! x ! y ! z)"
    unfolding e src ..
  have c2: "elems cg ! b ! x ! y ! z
         = convert_points_from_homogeneous
             (mat_vec44 (C_V ! b)
                (Fin (lidar_center x0 ?vx x), Fin (lidar_center y0 ?vy y),
                 Fin (lidar_center z0 ?vz z), Fin 1))"
    unfolding e comp ..
  have c3: "r3 = (0, 0, 0, 1) \<longrightarrow>
         elems cg ! b ! x ! y ! z
           = (affine_row r0 (lidar_center x0 ?vx x, lidar_center y0 ?vy y, lidar_center z0 ?vz z),
              affine_row r1 (lidar_center x0 ?vx x, lidar_center y0 ?vy y, lidar_center z0 ?vz z),
              affine_row r2 (lidar_center x0 ?vx x, lidar_center y0 ?vy y, lidar_center z0 ?vz z))"
    unfolding c2 assms(4) using aff by simp
  have c4: "fg ! b ! x ! y ! z
         = (case project_point (I_C ! b) (elems cg ! b ! x ! y ! z) of
              ((u, v), d) \<Rightarrow> (u, v, bd (disc_cfg g) d))"
    unfolding fe e frustum_point_def ..
  show ?thesis
    using tp tg shape c1 c2 c3 c4 by blast
qed

theorem transform_grid_applies_combined_transform_witness:
  "init [2, 2, 2] [Fin 0, Fin (- 2), Fin (- 4), Fin 4, Fin 2, Fin 0] scenario_cfg
      = Inr wide_generator
   \<and> length [scenario_cam_to_img, scenario_cam_to_img] = length [identity44, swap_lidar_to_cam]
   \<and> (1::nat) < length [identity44, swap_lidar_to_cam]
   \<and> [identity44, swap_lidar_to_cam] ! 1
        = fin44 ((0, 1, 0, 0), (1, 0, 0, 0), (0, 0, 1, 10), (0, 0, 0, 1))
   \<and> dims (voxel_grid wide_generator) = (1, 2, 2, 2) \<and> (1::nat) < 2 \<and> (0::nat) < 2
   \<and> (\<exists>cg fg.
        transform_points
            (map (\<lambda>C. mat_mul44 C (grid_to_lidar wide_generator)) [identity44, swap_lidar_to_cam])
            (repeat_interleave 2 (voxel_grid wide_generator)) = Inr cg
      \<and> transform_grid uniform_bin_depths wide_generator (voxel_grid wide_generator)
            (grid_to_lidar wide_generator) [identity44, swap_lidar_to_cam]
            [scenario_cam_to_img, scenario_cam_to_img] = Inr fg
      \<and> dims cg = (2, 2, 2, 2) \<and> length fg = 2 \<and> length (fg ! 1) = 2
      \<and> length (fg ! 1 ! 1) = 2 \<and> length (fg ! 1 ! 1 ! 0) = 2
      \<and> elems cg ! 1 ! 1 ! 0 ! 1 = (Fin (- 1), Fin 3, Fin 9)
      \<and> fg ! 1 ! 1 ! 0 ! 1 = (Fin (- 1/9), Fin (1/3), Fin 1))"
proof -
  have i: "init [2, 2, 2] [Fin 0, Fin (- 2), Fin (- 4), Fin 4, Fin 2, Fin 0] scenario_cfg
      = Inr wide_generator"
    using wide_init by (simp add: wide_range_def)
  have len: "length [scenario_cam_to_img, scenario_cam_to_img]
      = length [identity44, swap_lidar_to_cam]"
    by simp
  have b: "(1::nat) < length [identity44, swap_lidar_to_cam]"
    by simp
  have m: "[identity44, swap_lidar_to_cam] ! 1
        = fin44 ((0, 1, 0, 0), (1, 0, 0, 0), (0, 0, 1, 10), (0, 0, 0, 1))"
    by (simp add: swap_lidar_to_cam_def)
  have d: "dims (voxel_grid wide_generator) = (1, 2, 2, 2)"
    using init_fields(8) [OF wide_init] by (simp add: int32_cast_def)
  have i0: "(0::nat) < 2" and i1: "(1::nat) < 2"
    by simp_all
  have dc: "disc_cfg wide_generator = scenario_cfg"
    using init_fields(7) [OF wide_init] by simp
  from transform_grid_applies_combined_transform [OF i len b m d i1 i0 i1, of uniform_bin_depths]
  obtain cg fg where
    cg: "transform_points
            (map (\<lambda>C. mat_mul44 C (grid_to_lidar wide_generator)) [identity44, swap_lidar_to_cam])
            (repeat_interleave (length [identity44, swap_lidar_to_cam])
               (voxel_grid wide_generator)) = Inr cg"
    and fg: "transform_grid uniform_bin_depths wide_generator (voxel_grid wide_generator)
            (grid_to_lidar wide_generator) [identity44, swap_lidar_to_cam]
            [scenario_cam_to_img, scenario_cam_to_img] = Inr fg"
    and shape: "dims cg = (length [identity44, swap_lidar_to_cam], 2, 2, 2)"
       "length fg = length [identity44, swap_lidar_to_cam]" "length (fg ! 1) = 2"
       "length (fg ! 1 ! 1) = 2" "length (fg ! 1 ! 1 ! 0) = 2"
    and aff: "((0::real, 0::real, 0::real, 1::real) = (0, 0, 0, 1) \<longrightarrow>
         elems cg ! 1 ! 1 ! 0 ! 1
           = (affine_row (0, 1, 0, 0)
                (lidar_center 0 ((4 - 0) / of_int 2) 1,
                 lidar_center (- 2) ((2 - (- 2)) / of_int 2) 0,
                 lidar_center (- 4) ((0 - (- 4)) / of_int 2) 1),
              affine_row (1, 0, 0, 0)
                (lidar_center 0 ((4 - 0) / of_int 2) 1,
                 lidar_center (- 2) ((2 - (- 2)) / of_int 2) 0,
                 lidar_center (- 4) ((0 - (- 4)) / of_int 2) 1),
              affine_row (0, 0, 1, 10)
                (lidar_center 0 ((4 - 0) / of_int 2) 1,
                 lidar_center (- 2) ((2 - (- 2)) / of_int 2) 0,
                 lidar_center (- 4) ((0 - (- 4)) / of_int 2) 1)))"
    and fgv: "fg ! 1 ! 1 ! 0 ! 1
         = (case project_point ([scenario_cam_to_img, scenario_cam_to_img] ! 1)
                   (elems cg ! 1 ! 1 ! 0 ! 1) of
              ((u, v), d) \<Rightarrow> (u, v, uniform_bin_depths (disc_cfg wide_generator) d))"
    by blast
  have c1: "elems cg ! 1 ! 1 ! 0 ! 1 = (Fin (- 1), Fin 3, Fin 9)"
    using aff by (simp add: lidar_center_def)
  have f1: "fg ! 1 ! 1 ! 0 ! 1 = (Fin (- 1/9), Fin (1/3), Fin 1)"
    unfolding fgv c1 dc
    by (simp add: project_point_def scenario_cam_to_img_def scenario_cfg_def)
  have cg': "transform_points
            (map (\<lambda>C. mat_mul44 C (grid_to_lidar wide_generator)) [identity44, swap_lidar_to_cam])
            (repeat_interleave 2 (voxel_grid wide_generator)) = Inr cg"
    using cg by (simp add: numeral_2_eq_2)
  have shape': "dims cg = (2, 2, 2, 2)" "length fg = 2"
    using shape by simp_all
  show ?thesis
    using i len b m d i0 i1 cg' fg shape' shape(3-5) c1 f1 by blast
qed

section \<open>Batch dimensions\<close>

text \<open>
  Claim C3, as the code has it. On a constructed generator \<^verbatim>\<open>forward\<close> fails whenever
  \<open>cam_to_img\<close> does not hold as many matrices as \<open>lidar_to_cam\<close>: with a shape error,
  because the reshape to \<open>[B, 1, 1, 3, 4]\<close> does not fit, unless
  \<^verbatim>\<open>kornia.transform_points\<close> has raised before, which it does for a voxel grid of
  height zero and for an empty camera batch, whatever the other arguments. The batch
  dimension of \<open>image_shape\<close> is not compared with anything: it is reduced away by the
  maximum over the first dimension. For a voxel grid of positive height and \<open>B \<ge> 1\<close>
  cameras with \<open>B\<close> projections, every non-empty \<open>image_shape\<close> is accepted and a
  frustum grid with \<open>B\<close> leading entries is returned; only an empty \<open>image_shape\<close>
  fails, in the reduction.
\<close>

theorem forward_batch_checks:
  assumes "init gs pr dc = Inr g"
  shows "0 \<le> height g
    \<and> (height g = 0 \<longrightarrow> forward bd g C_V I_C s = Inl ShapeError)
    \<and> (0 < height g \<and> C_V = [] \<longrightarrow> forward bd g C_V I_C s = Inl ZeroDivisionError)
    \<and> (0 < height g \<and> C_V \<noteq> [] \<and> length I_C \<noteq> length C_V \<longrightarrow>
         forward bd g C_V I_C s = Inl ShapeError)
    \<and> (0 < height g \<and> C_V \<noteq> [] \<and> length I_C = length C_V \<and> s = [] \<longrightarrow>
         forward bd g C_V I_C s = Inl EmptyReduceError)
    \<and> (0 < height g \<and> C_V \<noteq> [] \<and> length I_C = length C_V \<and> s \<noteq> [] \<longrightarrow>
         (\<exists>out. forward bd g C_V I_C s = Inr out \<and> length out = length C_V))"
proof -
  note f = init_fields [OF assms]
  define n1 where "n1 = nat (int32_cast (gs ! 0))"
  define n2 where "n2 = nat (int32_cast (gs ! 1))"
  define n3 where "n3 = nat (int32_cast (gs ! 2))"
  have vg: "voxel_grid g = \<lparr> dims = (Suc 0, n1, n2, n3), elems = [center_grid n1 n2 n3] \<rparr>"
    using f(8) by (simp add: n1_def n2_def n3_def)
  have h0: "0 \<le> height g"
    using f(5,12) by simp
  have hz: "n3 = 0" if "height g = 0"
    using that f(12) by (simp add: n3_def)
  have hp: "0 < n3" if "0 < height g"
    using that f(12) by (simp add: n3_def)
  have e1: "forward bd g C_V I_C s = Inl ShapeError" if "height g = 0"
    by (rule forward_errors(1) [OF vg hz [OF that]])
  have e2: "forward bd g C_V I_C s = Inl ZeroDivisionError" if "0 < height g" "C_V = []"
    by (rule forward_errors(2) [OF vg hp [OF that(1)] that(2)])
  have e3: "forward bd g C_V I_C s = Inl ShapeError"
    if "0 < height g" "C_V \<noteq> []" "length I_C \<noteq> length C_V"
    by (rule forward_errors(3) [OF vg hp [OF that(1)] that(2,3)])
  have e4: "forward bd g C_V I_C s = Inl EmptyReduceError"
    if "0 < height g" "C_V \<noteq> []" "length I_C = length C_V" "s = []"
    using forward_errors(4) [OF vg hp [OF that(1)] that(2,3)] that(4) by simp
  have ok: "\<exists>out. forward bd g C_V I_C s = Inr out \<and> length out = length C_V"
    if a: "0 < height g" "C_V \<noteq> []" "length I_C = length C_V" "s \<noteq> []"
  proof -
    obtain hh w rest where s: "s = (hh, w) # rest"
      using a(4) by (cases s) auto
    show ?thesis
      using forward_single [OF vg hp [OF a(1)] a(2,3), of bd hh w rest] a(3)
      by (simp add: s)
  qed
  show ?thesis
    using h0 e1 e2 e3 e4 ok by blast
qed

theorem forward_batch_checks_witness:
  "init [2, 2, 2] scenario_range scenario_cfg = Inr scenario_generator
   \<and> 0 < height scenario_generator
   \<and> forward uniform_bin_depths scenario_generator [identity44, behind_lidar_to_cam]
        [scenario_cam_to_img] [(2, 2), (2, 2)] = Inl ShapeError
   \<and> forward uniform_bin_depths scenario_generator [] [] [(2, 2)] = Inl ZeroDivisionError
   \<and> forward uniform_bin_depths scenario_generator [identity44] [scenario_cam_to_img] []
        = Inl EmptyReduceError
   \<and> (\<exists>out. forward uniform_bin_depths scenario_generator [identity44] [scenario_cam_to_img]
               [(2, 2), (4, 4)] = Inr out \<and> length out = 1)
   \<and> (\<exists>g. init [2, 2, 0] scenario_range scenario_cfg = Inr g \<and> height g = 0
          \<and> forward uniform_bin_depths g [identity44] [scenario_cam_to_img] [(2, 2)]
               = Inl ShapeError)"
proof -
  have h: "height scenario_generator = 2"
    using init_fields(12) [OF scenario_init] by (simp add: int32_cast_def)
  obtain g where g: "init [2, 2, 0] scenario_range scenario_cfg = Inr g"
    by (simp add: scenario_range_def init_three int32_cast_def)
  have hg: "height g = 0"
    using init_fields(12) [OF g] by (simp add: int32_cast_def)
  show ?thesis
    using forward_batch_checks [OF scenario_init, of uniform_bin_depths
          "[identity44, behind_lidar_to_cam]" "[scenario_cam_to_img]" "[(2, 2), (2, 2)]"]
      forward_batch_checks [OF scenario_init, of uniform_bin_depths "[]" "[]" "[(2, 2)]"]
      forward_batch_checks [OF scenario_init, of uniform_bin_depths "[identity44]"
          "[scenario_cam_to_img]" "[]"]
      forward_batch_checks [OF scenario_init, of uniform_bin_depths "[identity44]"
          "[scenario_cam_to_img]" "[(2, 2), (4, 4)]"]
      forward_batch_checks [OF g, of uniform_bin_depths "[identity44]"
          "[scenario_cam_to_img]" "[(2, 2)]"]
      scenario_init h g hg
    by simp
qed

text \<open>
  Claim C3 as stated fails: with one LiDAR-to-camera matrix, one projection and an
  \<open>image_shape\<close> of two rows the batch dimensions are not all equal, and \<^verbatim>\<open>forward\<close>
  returns a frustum grid for the one camera.
\<close>

theorem forward_ignores_image_shape_batch_counterexample:
  "length [identity44] = 1 \<and> length [scenario_cam_to_img] = 1
   \<and> length [(2::int, 2::int), (4, 4)] = 2
   \<and> \<not> isl (forward uniform_bin_depths scenario_generator [identity44] [scenario_cam_to_img]
              [(2, 2), (4, 4)])
   \<and> length (projr (forward uniform_bin_depths scenario_generator [identity44]
              [scenario_cam_to_img] [(2, 2), (4, 4)])) = 1"
  by (simp add: forward_single [OF scenario_voxel_grid])

section \<open>Normalisation\<close>

text \<open>
  Claim C7, as the code has it. When \<^verbatim>\<open>transform_grid\<close> returns the raw frustum grid
  and \<open>image_shape\<close> is not empty, \<^verbatim>\<open>forward\<close> normalises every triple
  \<open>(u, v, depth_bin)\<close> against the reference shape made of \<open>num_bins\<close>, the largest
  image height and the largest image width of the batch: \<open>u\<close> against the width, \<open>v\<close>
  against the height and the depth bin against \<open>num_bins\<close>, each by
  \<open>2 * raw / (extent - 1) - 1\<close>, and then masks the result. Hence the last pixel column
  \<open>w - 1\<close> of a camera whose width \<open>w > 1\<close> is smaller than the largest width of the
  batch is normalised to a value strictly between \<open>-1\<close> and \<open>1\<close>, and likewise for the
  last pixel row, whereas the first pixel column and row, index \<open>0\<close>, are normalised to
  exactly \<open>-1\<close> for every reference extent other than one.
\<close>

theorem forward_normalizes_against_batch_maximum:
  assumes "transform_grid bd g (voxel_grid g) (grid_to_lidar g) C_V I_C = Inr raw"
    and "s \<noteq> []"
  shows "normalized_grid bd g C_V I_C s
       = Inr (map4d (normalize_point (num_bins (disc_cfg g), Max (fst ` set s), Max (snd ` set s))) raw)
    \<and> forward bd g C_V I_C s
       = Inr (map4d (mask_point (out_of_bounds_val g))
           (map4d (normalize_point (num_bins (disc_cfg g), Max (fst ` set s), Max (snd ` set s))) raw))
    \<and> (\<forall>nb H W u v d. nb \<noteq> 1 \<and> H \<noteq> 1 \<and> W \<noteq> 1 \<longrightarrow>
          normalize_point (nb, H, W) (Fin u, Fin v, Fin d)
            = (Fin (2 * u / (of_int W - 1) - 1), Fin (2 * v / (of_int H - 1) - 1),
               Fin (2 * d / (of_int nb - 1) - 1)))
    \<and> (\<forall>h w. (h, w) \<in> set s \<and> 1 < w \<and> w < Max (snd ` set s) \<longrightarrow>
          (\<exists>r. normalize_axis (Fin (of_int w - 1)) (Max (snd ` set s)) = Fin r \<and> - 1 < r \<and> r < 1))
    \<and> (\<forall>h w. (h, w) \<in> set s \<and> 1 < h \<and> h < Max (fst ` set s) \<longrightarrow>
          (\<exists>r. normalize_axis (Fin (of_int h - 1)) (Max (fst ` set s)) = Fin r \<and> - 1 < r \<and> r < 1))
    \<and> (Max (snd ` set s) \<noteq> 1 \<longrightarrow> normalize_axis (Fin 0) (Max (snd ` set s)) = Fin (- 1))
    \<and> (Max (fst ` set s) \<noteq> 1 \<longrightarrow> normalize_axis (Fin 0) (Max (fst ` set s)) = Fin (- 1))"
proof -
  have ng: "normalized_grid bd g C_V I_C s
       = Inr (map4d (normalize_point (num_bins (disc_cfg g), Max (fst ` set s), Max (snd ` set s))) raw)"
    using assms by (simp add: normalized_grid_def max_dim0_Max normalize_coords_def)
  have fw: "forward bd g C_V I_C s
       = Inr (map4d (mask_point (out_of_bounds_val g))
           (map4d (normalize_point (num_bins (disc_cfg g), Max (fst ` set s), Max (snd ` set s))) raw))"
    by (simp add: forward_def ng)
  have formula: "\<forall>nb H W u v d. nb \<noteq> 1 \<and> H \<noteq> 1 \<and> W \<noteq> 1 \<longrightarrow>
          normalize_point (nb, H, W) (Fin u, Fin v, Fin d)
            = (Fin (2 * u / (of_int W - 1) - 1), Fin (2 * v / (of_int H - 1) - 1),
               Fin (2 * d / (of_int nb - 1) - 1))"
    by (simp add: normalize_axis_finite)
  have boundary: "\<exists>r. normalize_axis (Fin (of_int w - 1)) M = Fin r \<and> - 1 < r \<and> r < 1"
    if "1 < w" "w < M" for w M :: int
  proof -
    have M: "M \<noteq> 1" using that by simp
    have pos: "0 < (of_int M - 1 :: real)" using that by simp
    have lt: "(of_int w - 1 :: real) < of_int M - 1" using that by simp
    have gt: "0 < (of_int w - 1 :: real)" using that by simp
    have up: "2 * (of_int w - 1) / (of_int M - 1) < (2::real)"
      using pos lt by (simp add: divide_less_eq)
    have lo: "0 < 2 * (of_int w - 1) / (of_int M - 1 :: real)"
      using pos gt by simp
    show ?thesis
      using up lo by (simp add: normalize_axis_finite [OF M])
  qed
  have first: "M \<noteq> 1 \<Longrightarrow> normalize_axis (Fin 0) M = Fin (- 1)" for M
    by (simp add: normalize_axis_finite)
  show ?thesis
    using ng fw formula boundary first by blast
qed

theorem forward_normalizes_against_batch_maximum_witness:
  "transform_grid uniform_bin_depths scenario_generator (voxel_grid scenario_generator)
        (grid_to_lidar scenario_generator) [identity44, behind_lidar_to_cam]
        [scenario_cam_to_img, scenario_cam_to_img] = Inr two_camera_raw
   \<and> [(2::int, 2::int), (4, 4)] \<noteq> []
   \<and> normalized_grid uniform_bin_depths scenario_generator [identity44, behind_lidar_to_cam]
        [scenario_cam_to_img, scenario_cam_to_img] [(2, 2), (4, 4)]
       = Inr (map4d (normalize_point (2, 4, 4)) two_camera_raw)
   \<and> normalize_point (2, 4, 4) (Fin 1, Fin 1, Fin 0) = (Fin (- 1/3), Fin (- 1/3), Fin (- 1))
   \<and> (2::int, 2::int) \<in> set [(2, 2), (4, 4)] \<and> (1::int) < 2 \<and> (2::int) < 4
   \<and> (\<exists>r. normalize_axis (Fin 1) 4 = Fin r \<and> - 1 < r \<and> r < 1)
   \<and> (4::int) \<noteq> 1 \<and> normalize_axis (Fin 0) 4 = Fin (- 1)"
proof -
  have mx: "Max (snd ` set [(2::int, 2::int), (4, 4)]) = 4"
      "Max (fst ` set [(2::int, 2::int), (4, 4)]) = 4"
    by simp_all
  note t = forward_normalizes_against_batch_maximum [OF two_camera_transform_grid,
      of "[(2, 2), (4, 4)]", unfolded mx scenario_simps]
  have f: "normalize_point (2, 4, 4) (Fin 1, Fin 1, Fin 0) = (Fin (- 1/3), Fin (- 1/3), Fin (- 1))"
    using t [THEN conjunct2, THEN conjunct2, THEN conjunct1, rule_format, of 2 4 4 1 1 0]
    by simp
  have "\<exists>r. normalize_axis (Fin (of_int 2 - 1)) 4 = Fin r \<and> - 1 < r \<and> r < 1"
    using t [THEN conjunct2, THEN conjunct2, THEN conjunct2, THEN conjunct1, rule_format, of 2 2]
    by simp
  then have b: "\<exists>r. normalize_axis (Fin 1) 4 = Fin r \<and> - 1 < r \<and> r < 1"
    by simp
  have z: "normalize_axis (Fin 0) 4 = Fin (- 1)"
    using t [THEN conjunct2, THEN conjunct2, THEN conjunct2, THEN conjunct2, THEN conjunct2,
        THEN conjunct1]
    by simp
  show ?thesis
    using t [THEN conjunct1] two_camera_transform_grid f b z by simp
qed

text \<open>
  Claim C7 as stated fails: in a batch of a camera of 2 by 2 pixels and a camera of 4 by
  4 pixels, the centre of voxel \<open>(0, 0, 0)\<close> lies on pixel \<open>(0, 0)\<close> of the smaller
  camera, on the boundary of its image, and both of its image coordinates are normalised
  to exactly \<open>-1\<close>.
\<close>

theorem first_pixel_normalizes_to_minus_one_counterexample:
  "\<not> isl (normalized_grid uniform_bin_depths scenario_generator [identity44, identity44]
            [corner_cam_to_img, scenario_cam_to_img] [(2, 2), (4, 4)])
   \<and> projr (transform_grid uniform_bin_depths scenario_generator (voxel_grid scenario_generator)
            (grid_to_lidar scenario_generator) [identity44, identity44]
            [corner_cam_to_img, scenario_cam_to_img]) ! 0 ! 0 ! 0 ! 0
       = (Fin 0, Fin 0, Fin 0)
   \<and> projr (normalized_grid uniform_bin_depths scenario_generator [identity44, identity44]
            [corner_cam_to_img, scenario_cam_to_img] [(2, 2), (4, 4)]) ! 0 ! 0 ! 0 ! 0
       = (Fin (- 1), Fin (- 1), Fin (- 1))"
  by (simp add: normalized_grid_single [OF scenario_voxel_grid] scenario_voxel_grid
      transform_grid_single center_grid_2 scenario_simps corner_frustum_point
      normalize_axis_def fsub_def fl_of_int_def)

section \<open>Sentinel replacement\<close>

text \<open>
  Claim C10. The output of \<^verbatim>\<open>forward\<close> has the shape of the normalised grid, and each
  scalar of each triple is the normalised scalar itself when that is finite, also when it
  lies outside \<open>[-1, 1]\<close>, and the sentinel \<open>-2\<close> when it is NaN or an infinity.
\<close>

theorem sentinel_replaces_exactly_nonfinite:
  assumes "init gs pr dc = Inr g" and "normalized_grid bd g C_V I_C s = Inr ng"
  shows "\<exists>out. forward bd g C_V I_C s = Inr out \<and> length out = length ng
    \<and> (\<forall>b<length ng. length (out ! b) = length (ng ! b)
        \<and> (\<forall>x<length (ng ! b). length (out ! b ! x) = length (ng ! b ! x)
            \<and> (\<forall>y<length (ng ! b ! x). length (out ! b ! x ! y) = length (ng ! b ! x ! y)
                \<and> (\<forall>z<length (ng ! b ! x ! y). \<forall>u v d. ng ! b ! x ! y ! z = (u, v, d) \<longrightarrow>
                      out ! b ! x ! y ! z
                        = (if isfinite u then u else Fin (- 2),
                           if isfinite v then v else Fin (- 2),
                           if isfinite d then d else Fin (- 2))))))"
  using assms(2) init_fields(6) [OF assms(1)]
  by (simp add: forward_def map4d_def mask_scalar_def)

theorem sentinel_replaces_exactly_nonfinite_witness:
  "init [2, 2, 2] scenario_range scenario_cfg = Inr scenario_generator
   \<and> normalized_grid uniform_bin_depths scenario_generator mixed_lidar_to_cam mixed_cam_to_img
        [(2, 2)] = Inr mixed_normalized
   \<and> mixed_normalized ! 0 ! 0 ! 0 ! 0 = (PInf, PInf, Fin (- 1))
   \<and> mixed_normalized ! 1 ! 0 ! 0 ! 0 = (Fin (- 3), Fin (- 3), Fin (- 1))
   \<and> (\<exists>out. forward uniform_bin_depths scenario_generator mixed_lidar_to_cam mixed_cam_to_img
               [(2, 2)] = Inr out
          \<and> out ! 0 ! 0 ! 0 ! 0 = (Fin (- 2), Fin (- 2), Fin (- 1))
          \<and> out ! 1 ! 0 ! 0 ! 0 = (Fin (- 3), Fin (- 3), Fin (- 1)))"
proof -
  obtain out where out:
      "forward uniform_bin_depths scenario_generator mixed_lidar_to_cam mixed_cam_to_img [(2, 2)]
         = Inr out"
    and pts: "\<forall>b<length mixed_normalized. length (out ! b) = length (mixed_normalized ! b)
        \<and> (\<forall>x<length (mixed_normalized ! b). length (out ! b ! x) = length (mixed_normalized ! b ! x)
            \<and> (\<forall>y<length (mixed_normalized ! b ! x).
                  length (out ! b ! x ! y) = length (mixed_normalized ! b ! x ! y)
                \<and> (\<forall>z<length (mixed_normalized ! b ! x ! y). \<forall>u v d.
                      mixed_normalized ! b ! x ! y ! z = (u, v, d) \<longrightarrow>
                      out ! b ! x ! y ! z
                        = (if isfinite u then u else Fin (- 2),
                           if isfinite v then v else Fin (- 2),
                           if isfinite d then d else Fin (- 2)))))"
    using sentinel_replaces_exactly_nonfinite [OF scenario_init mixed_normalized_grid] by blast
  have "out ! 0 ! 0 ! 0 ! 0 = (Fin (- 2), Fin (- 2), Fin (- 1))"
    using pts mixed_normalized_shape mixed_normalized_values(1) by force
  moreover have "out ! 1 ! 0 ! 0 ! 0 = (Fin (- 3), Fin (- 3), Fin (- 1))"
    using pts mixed_normalized_shape mixed_normalized_values(2) by force
  ultimately show ?thesis
    using scenario_init mixed_normalized_grid mixed_normalized_values out by blast
qed

text \<open>
  Claim C1, as the code has it. On a constructed generator, every triple that \<^verbatim>\<open>forward\<close>
  returns is the normalised triple at the same position with each scalar masked on its
  own: a scalar that is NaN or an infinity is replaced by the sentinel \<open>-2\<close>, and a finite
  scalar is kept as it is, whether or not it lies in \<open>[-1, 1]\<close>. Hence all three scalars
  of every returned triple are finite; nothing ties the three scalars of a triple
  together.
\<close>

theorem forward_output_masks_each_scalar:
  assumes "init gs pr dc = Inr g" and "forward bd g C_V I_C s = Inr out"
    and "b < length out" and "x < length (out ! b)" and "y < length (out ! b ! x)"
    and "z < length (out ! b ! x ! y)"
  shows "\<exists>ng nu nv nd ou ov od. normalized_grid bd g C_V I_C s = Inr ng
    \<and> ng ! b ! x ! y ! z = (nu, nv, nd)
    \<and> out ! b ! x ! y ! z = (ou, ov, od)
    \<and> ou = (if isfinite nu then nu else Fin (- 2))
    \<and> ov = (if isfinite nv then nv else Fin (- 2))
    \<and> od = (if isfinite nd then nd else Fin (- 2))
    \<and> isfinite ou \<and> isfinite ov \<and> isfinite od"
proof -
  obtain ng where ng: "normalized_grid bd g C_V I_C s = Inr ng"
      and out: "out = map4d (mask_point (out_of_bounds_val g)) ng"
    using assms(2) by (auto simp: forward_def split: sum.splits)
  have oob: "out_of_bounds_val g = Fin (- 2)"
    using init_fields(6) [OF assms(1)] by simp
  have b: "b < length ng"
    using assms(3) by (simp add: out map4d_def)
  have x: "x < length (ng ! b)"
    using assms(4) b by (simp add: out map4d_def)
  have y: "y < length (ng ! b ! x)"
    using assms(5) b x by (simp add: out map4d_def)
  have z: "z < length (ng ! b ! x ! y)"
    using assms(6) b x y by (simp add: out map4d_def)
  have e: "out ! b ! x ! y ! z = mask_point (Fin (- 2)) (ng ! b ! x ! y ! z)"
    using b x y z by (simp add: out oob map4d_def)
  obtain nu nv nd where n: "ng ! b ! x ! y ! z = (nu, nv, nd)"
    by (cases "ng ! b ! x ! y ! z") auto
  have m: "out ! b ! x ! y ! z = (if isfinite nu then nu else Fin (- 2),
      if isfinite nv then nv else Fin (- 2), if isfinite nd then nd else Fin (- 2))"
    by (simp add: e n mask_scalar_def)
  have fin: "isfinite (if isfinite nu then nu else Fin (- 2))"
      "isfinite (if isfinite nv then nv else Fin (- 2))"
      "isfinite (if isfinite nd then nd else Fin (- 2))"
    by simp_all
  show ?thesis
    using ng n m fin by blast
qed

theorem forward_output_masks_each_scalar_witness:
  "init [2, 2, 2] scenario_range scenario_cfg = Inr scenario_generator
   \<and> forward uniform_bin_depths scenario_generator mixed_lidar_to_cam mixed_cam_to_img [(2, 2)]
        = Inr mixed_output
   \<and> 0 < length mixed_output \<and> 0 < length (mixed_output ! 0)
   \<and> 0 < length (mixed_output ! 0 ! 0) \<and> 0 < length (mixed_output ! 0 ! 0 ! 0)
   \<and> normalized_grid uniform_bin_depths scenario_generator mixed_lidar_to_cam mixed_cam_to_img
        [(2, 2)] = Inr mixed_normalized
   \<and> mixed_normalized ! 0 ! 0 ! 0 ! 0 = (PInf, PInf, Fin (- 1))
   \<and> mixed_output ! 0 ! 0 ! 0 ! 0 = (Fin (- 2), Fin (- 2), Fin (- 1))
   \<and> isfinite (Fin (- 2)) \<and> isfinite (Fin (- 1))"
proof -
  obtain ng nu nv nd ou ov od where
      ng: "normalized_grid uniform_bin_depths scenario_generator mixed_lidar_to_cam
             mixed_cam_to_img [(2, 2)] = Inr ng"
      and n: "ng ! 0 ! 0 ! 0 ! 0 = (nu, nv, nd)"
      and out: "mixed_output ! 0 ! 0 ! 0 ! 0 = (ou, ov, od)"
      and m: "ou = (if isfinite nu then nu else Fin (- 2))"
        "ov = (if isfinite nv then nv else Fin (- 2))"
        "od = (if isfinite nd then nd else Fin (- 2))"
    using forward_output_masks_each_scalar [OF scenario_init mixed_forward, of 0 0 0 0]
      mixed_output_shape
    by auto
  have "ng = mixed_normalized"
    using ng mixed_normalized_grid by simp
  then have "(nu, nv, nd) = (PInf, PInf, Fin (- 1))"
    using n mixed_normalized_values(1) by metis
  then have "nu = PInf" "nv = PInf" "nd = Fin (- 1)"
    by simp_all
  then have "mixed_output ! 0 ! 0 ! 0 ! 0 = (Fin (- 2), Fin (- 2), Fin (- 1))"
    using out m by simp
  then show ?thesis
    using scenario_init mixed_forward mixed_output_shape mixed_normalized_grid
      mixed_normalized_values(1)
    by simp
qed

text \<open>
  Claim C1 as stated fails, in both of its alternatives. For a batch of two cameras on
  the scenario generator, the first with a projection whose depth vanishes at the centre
  of voxel \<open>(0, 0, 0)\<close> and the second behind the first layer of voxels, the returned
  triple of voxel \<open>(0, 0, 0)\<close> is \<open>(-2, -2, -1)\<close> for the first camera, which mixes
  sentinel and non-sentinel scalars, and \<open>(-3, -3, -1)\<close> for the second, which holds no
  sentinel and is not in the range \<open>[-1, 1]\<close>.
\<close>

theorem mixed_and_out_of_range_triples_counterexample:
  "\<not> isl (forward uniform_bin_depths scenario_generator [identity44, behind_lidar_to_cam]
            [zero_depth_cam_to_img, scenario_cam_to_img] [(2, 2)])
   \<and> projr (forward uniform_bin_depths scenario_generator [identity44, behind_lidar_to_cam]
            [zero_depth_cam_to_img, scenario_cam_to_img] [(2, 2)]) ! 0 ! 0 ! 0 ! 0
       = (Fin (- 2), Fin (- 2), Fin (- 1))
   \<and> projr (forward uniform_bin_depths scenario_generator [identity44, behind_lidar_to_cam]
            [zero_depth_cam_to_img, scenario_cam_to_img] [(2, 2)]) ! 1 ! 0 ! 0 ! 0
       = (Fin (- 3), Fin (- 3), Fin (- 1))"
  using mixed_forward mixed_output_values
  by (simp add: mixed_lidar_to_cam_def mixed_cam_to_img_def)

section \<open>The end-to-end scenario\<close>

text \<open>
  Claim C9, as the code has it. In the scenario with grid size \<open>(2, 2, 2)\<close>, range
  \<open>[0, 0, 0, 2, 2, 2]\<close>, identity LiDAR-to-camera matrix, the projection
  \<open>[[1,0,0,0],[0,1,0,0],[0,0,1,0]]\<close>, image shape \<open>[2, 2]\<close> and two bins, the voxel size
  is \<open>(1, 1, 1)\<close>, voxel \<open>(0, 0, 0)\<close> has the centre \<open>(0.5, 0.5, 0.5)\<close> in index space, in
  the LiDAR frame and in the camera frame, and its homogeneous image coordinate
  \<open>(0.5, 0.5, 0.5)\<close> is divided by the depth \<open>0.5\<close>: the image coordinate is \<open>(1, 1)\<close>
  and the depth \<open>0.5\<close>. For every discretiser that puts the depth \<open>0.5\<close> into bin \<open>0\<close>
  the raw triple is \<open>(1, 1, 0)\<close>, the reference shape is \<open>(2, 2, 2)\<close>, and the returned
  triple is \<open>(1, 1, -1)\<close>.
\<close>

theorem end_to_end_scenario:
  assumes "bd scenario_cfg (Fin (1/2)) = Fin 0"
  shows "\<exists>g. init [2, 2, 2] [Fin 0, Fin 0, Fin 0, Fin 2, Fin 2, Fin 2] scenario_cfg = Inr g
     \<and> voxel_size g = (Fin 1, Fin 1, Fin 1)
     \<and> elems (voxel_grid g) ! 0 ! 0 ! 0 ! 0 = (Fin (1/2), Fin (1/2), Fin (1/2))
     \<and> mat_vec44 (grid_to_lidar g) (Fin (1/2), Fin (1/2), Fin (1/2), Fin 1)
          = (Fin (1/2), Fin (1/2), Fin (1/2), Fin 1)
     \<and> transform_point (mat_mul44 identity44 (grid_to_lidar g))
          (elems (voxel_grid g) ! 0 ! 0 ! 0 ! 0)
          = (Fin (1/2), Fin (1/2), Fin (1/2))
     \<and> project_point scenario_cam_to_img (Fin (1/2), Fin (1/2), Fin (1/2))
          = ((Fin 1, Fin 1), Fin (1/2))
     \<and> (\<exists>fg. transform_grid bd g (voxel_grid g) (grid_to_lidar g) [identity44]
                 [scenario_cam_to_img] = Inr fg
            \<and> fg ! 0 ! 0 ! 0 ! 0 = (Fin 1, Fin 1, Fin 0))
     \<and> num_bins (disc_cfg g) = 2 \<and> max_dim0 [(2, 2)] = Inr (2, 2)
     \<and> normalize_point (2, 2, 2) (Fin 1, Fin 1, Fin 0) = (Fin 1, Fin 1, Fin (- 1))
     \<and> (\<exists>out. forward bd g [identity44] [scenario_cam_to_img] [(2, 2)] = Inr out
            \<and> out ! 0 ! 0 ! 0 ! 0 = (Fin 1, Fin 1, Fin (- 1)))"
proof -
  have norm: "normalize_point (2, 2, 2) (Fin 1, Fin 1, Fin 0) = (Fin 1, Fin 1, Fin (- 1))"
    by (simp add: normalize_axis_def fsub_def fl_of_int_def)
  have i: "init [2, 2, 2] [Fin 0, Fin 0, Fin 0, Fin 2, Fin 2, Fin 2] scenario_cfg
          = Inr scenario_generator"
    using scenario_init by (simp add: scenario_range_def)
  have vs: "voxel_size scenario_generator = (Fin 1, Fin 1, Fin 1)"
    using init_fields(13) [OF scenario_init]
    by (simp add: scenario_range_def fsub_def fl_of_int_def)
  have c: "elems (voxel_grid scenario_generator) ! 0 ! 0 ! 0 ! 0
          = (Fin (1/2), Fin (1/2), Fin (1/2))"
    by (simp add: scenario_voxel_grid center_grid_2 voxel_center_def)
  have l: "mat_vec44 (grid_to_lidar scenario_generator) (Fin (1/2), Fin (1/2), Fin (1/2), Fin 1)
          = (Fin (1/2), Fin (1/2), Fin (1/2), Fin 1)"
    by (simp add: scenario_grid_to_lidar identity44_def)
  have t: "transform_point (mat_mul44 identity44 (grid_to_lidar scenario_generator))
          (elems (voxel_grid scenario_generator) ! 0 ! 0 ! 0 ! 0)
          = (Fin (1/2), Fin (1/2), Fin (1/2))"
    by (simp add: c scenario_grid_to_lidar mat_mul44_identity transform_point_identity_finite)
  have p: "project_point scenario_cam_to_img (Fin (1/2), Fin (1/2), Fin (1/2))
          = ((Fin 1, Fin 1), Fin (1/2))"
    by (simp add: project_point_def scenario_cam_to_img_def)
  have tg: "\<exists>fg. transform_grid bd scenario_generator (voxel_grid scenario_generator)
        (grid_to_lidar scenario_generator) [identity44] [scenario_cam_to_img] = Inr fg
            \<and> fg ! 0 ! 0 ! 0 ! 0 = (Fin 1, Fin 1, Fin 0)"
    using assms
    by (simp add: scenario_voxel_grid transform_grid_single scenario_simps center_grid_2
        scenario_frustum_point_any)
  have nb: "num_bins (disc_cfg scenario_generator) = 2" "max_dim0 [(2, 2)] = Inr (2, 2)"
    by (simp_all add: scenario_simps)
  have fw: "\<exists>out. forward bd scenario_generator [identity44] [scenario_cam_to_img] [(2, 2)]
        = Inr out \<and> out ! 0 ! 0 ! 0 ! 0 = (Fin 1, Fin 1, Fin (- 1))"
    using assms
    by (simp add: forward_single [OF scenario_voxel_grid] scenario_simps center_grid_2
        scenario_frustum_point_any normalize_axis_def fsub_def fl_of_int_def mask_scalar_def)
  show ?thesis
    using norm i vs c l t p tg nb fw by blast
qed

theorem end_to_end_scenario_witness:
  "uniform_bin_depths scenario_cfg (Fin (1/2)) = Fin 0
   \<and> (\<exists>g. init [2, 2, 2] [Fin 0, Fin 0, Fin 0, Fin 2, Fin 2, Fin 2] scenario_cfg = Inr g
        \<and> voxel_size g = (Fin 1, Fin 1, Fin 1)
        \<and> elems (voxel_grid g) ! 0 ! 0 ! 0 ! 0 = (Fin (1/2), Fin (1/2), Fin (1/2))
        \<and> (\<exists>out. forward uniform_bin_depths g [identity44] [scenario_cam_to_img] [(2, 2)] = Inr out
            \<and> out ! 0 ! 0 ! 0 ! 0 = (Fin 1, Fin 1, Fin (- 1))))"
proof -
  have h: "uniform_bin_depths scenario_cfg (Fin (1/2)) = Fin 0"
    by (simp add: scenario_cfg_def)
  from end_to_end_scenario [of uniform_bin_depths, OF h] obtain g where
      "init [2, 2, 2] [Fin 0, Fin 0, Fin 0, Fin 2, Fin 2, Fin 2] scenario_cfg = Inr g"
      "voxel_size g = (Fin 1, Fin 1, Fin 1)"
      "elems (voxel_grid g) ! 0 ! 0 ! 0 ! 0 = (Fin (1/2), Fin (1/2), Fin (1/2))"
      "\<exists>out. forward uniform_bin_depths g [identity44] [scenario_cam_to_img] [(2, 2)] = Inr out
            \<and> out ! 0 ! 0 ! 0 ! 0 = (Fin 1, Fin 1, Fin (- 1))"
    by blast
  with h show ?thesis by blast
qed

text \<open>
  Claim C9 as stated fails: the image coordinate of voxel \<open>(0, 0, 0)\<close> in the scenario is
  \<open>(1, 1)\<close>, not \<open>(0.5, 0.5)\<close>.
\<close>

theorem scenario_image_coordinate_counterexample:
  "\<not> isl (transform_grid uniform_bin_depths scenario_generator (voxel_grid scenario_generator)
            (grid_to_lidar scenario_generator) [identity44] [scenario_cam_to_img])
   \<and> projr (transform_grid uniform_bin_depths scenario_generator (voxel_grid scenario_generator)
            (grid_to_lidar scenario_generator) [identity44] [scenario_cam_to_img]) ! 0 ! 0 ! 0 ! 0
       = (Fin 1, Fin 1, Fin 0)
   \<and> (Fin 1, Fin 1) \<noteq> (Fin (1/2), Fin (1/2))"
  by (simp add: scenario_voxel_grid transform_grid_single scenario_simps center_grid_2
      scenario_frustum_point)

section \<open>Determinism\<close>

text \<open>
  Claim C8. On the store of tensors, let a generator be built, \<^verbatim>\<open>forward\<close> be called on
  it twice with the same three arguments, a second generator be built from the same
  configuration, and \<^verbatim>\<open>forward\<close> be called on that one with the same arguments again.
  Then the three calls return the same frustum grid, or fail with the same error, and
  what they return is the value of \<^verbatim>\<open>forward\<close> as a function of the configuration and
  the three arguments. The in-place write at the end of \<^verbatim>\<open>forward\<close> goes to a tensor
  allocated by the call: the voxel grid of the generator, which \<^verbatim>\<open>transform_grid\<close>
  receives without a copy, is the same after all calls, and the tensor returned by the
  first call is not changed by the later ones.
\<close>

theorem forward_is_deterministic:
  assumes "init_on_store gs pr dc h0 = (Inr self, h)"
    and "forward_on_store bd self C_V I_C s h = (r1, h1)"
    and "forward_on_store bd self C_V I_C s h1 = (r2, h2)"
    and "init_on_store gs pr dc h2 = (Inr self', h3)"
    and "forward_on_store bd self' C_V I_C s h3 = (r3, h4)"
  shows "attrs self' = attrs self
    \<and> returned (r1, h1) = forward bd (attrs self) C_V I_C s
    \<and> returned (r2, h2) = returned (r1, h1)
    \<and> returned (r3, h4) = returned (r1, h1)
    \<and> returned (r1, h4) = returned (r1, h1)
    \<and> cells h4 (voxel_grid_at self) = voxel_grid (attrs self)"
proof -
  note i = init_on_store_result [OF assms(1)]
  note i' = init_on_store_result [OF assms(4)]
  have a: "attrs self' = attrs self"
    using i(1) i'(1) by simp
  have f1: "\<forall>b<next_free h. cells h1 b = cells h b" "next_free h \<le> next_free h1"
    using forward_on_store_frame [where h = h and bd = bd and self = self and C_V = C_V
        and I_C = I_C and s = s] assms(2)
    by simp_all
  have f2: "\<forall>b<next_free h1. cells h2 b = cells h1 b" "next_free h1 \<le> next_free h2"
    using forward_on_store_frame [where h = h1 and bd = bd and self = self and C_V = C_V
        and I_C = I_C and s = s] assms(3)
    by simp_all
  have f3: "\<forall>b<next_free h2. cells h3 b = cells h2 b" "next_free h2 \<le> next_free h3"
    using init_on_store_frame [where h = h2 and gs = gs and pr = pr and dc = dc] assms(4)
    by simp_all
  have f4: "\<forall>b<next_free h3. cells h4 b = cells h3 b"
    using forward_on_store_frame(1) [where h = h3 and bd = bd and self = self' and C_V = C_V
        and I_C = I_C and s = s] assms(5)
    by simp
  have c1: "cells h1 (voxel_grid_at self) = voxel_grid (attrs self)"
    using i(2,3) f1(1) by simp
  have e1: "returned (r1, h1) = forward bd (attrs self) C_V I_C s"
    using forward_on_store_refines [OF i(2), of bd C_V I_C s] assms(2) by simp
  have e2: "returned (r2, h2) = forward bd (attrs self) C_V I_C s"
    using forward_on_store_refines [OF c1, of bd C_V I_C s] assms(3) by simp
  have e3: "returned (r3, h4) = forward bd (attrs self') C_V I_C s"
    using forward_on_store_refines [OF i'(2), of bd C_V I_C s] assms(5) by simp
  have keep: "cells h4 b = cells h1 b" if b: "b < next_free h1" for b
  proof -
    have "cells h2 b = cells h1 b"
      using f2(1) b by simp
    moreover have "cells h3 b = cells h2 b"
      using f3(1) f2(2) b by simp
    moreover have "cells h4 b = cells h3 b"
      using f4 f3(2) f2(2) b by simp
    ultimately show ?thesis
      by simp
  qed
  have e4: "returned (r1, h4) = returned (r1, h1)"
  proof (cases r1)
    case (Inl e)
    then show ?thesis
      by (simp add: returned_def)
  next
    case (Inr p)
    have "p < next_free h1"
      using forward_on_store_result_allocated [of bd self C_V I_C s h p] assms(2) Inr by simp
    then show ?thesis
      using keep Inr by (simp add: returned_def)
  qed
  have c4: "cells h4 (voxel_grid_at self) = voxel_grid (attrs self)"
    using keep [of "voxel_grid_at self"] i(3) f1(2) c1 by simp
  show ?thesis
    using a e1 e2 e3 e4 c4 by simp
qed

theorem forward_is_deterministic_witness:
  "fst scenario_built = Inr \<lparr> attrs = scenario_generator, voxel_grid_at = 0 \<rparr>
   \<and> fst scenario_rebuilt
       = Inr \<lparr> attrs = scenario_generator, voxel_grid_at = next_free (snd second_call) \<rparr>
   \<and> returned first_call = Inr mixed_output
   \<and> returned second_call = Inr mixed_output
   \<and> returned third_call = Inr mixed_output
   \<and> returned (fst first_call, snd third_call) = Inr mixed_output
   \<and> cells (snd third_call) 0 = voxel_grid scenario_generator
   \<and> mixed_output ! 0 ! 0 ! 0 ! 0 = (Fin (- 2), Fin (- 2), Fin (- 1))"
proof -
  have b: "fst scenario_built = Inr \<lparr> attrs = scenario_generator, voxel_grid_at = 0 \<rparr>"
    using init_on_store_success [OF scenario_init, of empty_store]
    by (simp add: scenario_built_def empty_store_def)
  have rb: "fst scenario_rebuilt
       = Inr \<lparr> attrs = scenario_generator, voxel_grid_at = next_free (snd second_call) \<rparr>"
    using init_on_store_success [OF scenario_init, of "snd second_call"]
    by (simp add: scenario_rebuilt_def)
  have h1: "init_on_store [2, 2, 2] scenario_range scenario_cfg empty_store
      = (Inr (projr (fst scenario_built)), snd scenario_built)"
    using b by (simp add: scenario_built_def prod_eq_iff)
  have h2: "forward_on_store uniform_bin_depths (projr (fst scenario_built)) mixed_lidar_to_cam
      mixed_cam_to_img [(2, 2)] (snd scenario_built) = (fst first_call, snd first_call)"
    by (simp add: first_call_def)
  have h3: "forward_on_store uniform_bin_depths (projr (fst scenario_built)) mixed_lidar_to_cam
      mixed_cam_to_img [(2, 2)] (snd first_call) = (fst second_call, snd second_call)"
    by (simp add: second_call_def)
  have h4: "init_on_store [2, 2, 2] scenario_range scenario_cfg (snd second_call)
      = (Inr (projr (fst scenario_rebuilt)), snd scenario_rebuilt)"
    using rb by (simp add: scenario_rebuilt_def prod_eq_iff)
  have h5: "forward_on_store uniform_bin_depths (projr (fst scenario_rebuilt)) mixed_lidar_to_cam
      mixed_cam_to_img [(2, 2)] (snd scenario_rebuilt) = (fst third_call, snd third_call)"
    by (simp add: third_call_def)
  show ?thesis
    using forward_is_deterministic [OF h1 h2 h3 h4 h5] b rb mixed_forward
      mixed_output_values(1)
    by simp
qed

end
